theory Spec2Isabelle
  imports Main
begin

section \<open>Data model\<close>

text \<open>
  \<^verbatim>\<open>Point2D\<close> of \<^verbatim>\<open>./types\<close>: a grid cell or a direction vector. The scene is the
  object literal \<^verbatim>\<open>{snake, apples, score}\<close> built by \<^verbatim>\<open>scene$\<close>.
\<close>

record Point2D =
  x :: int
  y :: int

record scene =
  snake :: "Point2D list"
  apples :: "Point2D list"
  score :: int

text \<open>
  An array of food cells as the page holds it: the address of the object, which is what
  \<^verbatim>\<open>===\<close> compares, and its cells. The rules do not mutate their arguments, so the cells
  at an address never change.
\<close>

record food_array =
  address :: nat
  cells :: "Point2D list"

text \<open>
  The two calls the subscriber of \<^verbatim>\<open>game$\<close> makes on the canvas module:
  \<^verbatim>\<open>next: (scene) => renderScene(ctx, scene)\<close> and \<^verbatim>\<open>complete: () => renderGameOver(ctx)\<close>.
\<close>

datatype render_call = RenderScene scene | RenderGameOver

text \<open>
  One subscription to \<^verbatim>\<open>interval(v)\<close>: its period and the counter it emits next.
\<close>

record timer =
  period :: int
  counter :: nat

text \<open>
  What the event loop delivers to the page: a \<^verbatim>\<open>keydown\<close> with its \<^verbatim>\<open>event.key\<close>, a
  \<^verbatim>\<open>click\<close> with the \<^verbatim>\<open>id\<close> of its \<^verbatim>\<open>srcElement\<close> (the empty string when the element has
  none), the firing of the \<open>n\<close>-th live inner \<^verbatim>\<open>interval\<close> of \<^verbatim>\<open>ticks$\<close>, and an animation
  frame of \<^verbatim>\<open>game$\<close>. A tick carries the cell that the random placement of \<^verbatim>\<open>eat\<close> would
  return during that tick: randomness is an input of the model.
\<close>

datatype event = KeyDown string | Click string | Tick nat Point2D | Frame

text \<open>
  The imports of \<^verbatim>\<open>index.ts\<close> from \<^verbatim>\<open>./constants\<close> and \<^verbatim>\<open>./game.util\<close>, whose files are
  not part of the sources at hand. The pipeline is modelled over arbitrary values of
  them. \<open>generateSnake\<close> and \<open>generateApples\<close> stand for the values the two calls return
  when the module is evaluated. \<open>eatF\<close> is given the address at which an array it creates
  would be put, the random cell of the tick, the food array and the snake; it has no
  result when the call does not return.
\<close>

record collab =
  SNAKE_LENGTH :: int
  POINTS_PER_APPLE :: int
  generateSnake :: "Point2D list"
  generateApples :: "Point2D list"
  moveF :: "Point2D list \<Rightarrow> Point2D \<times> int \<times> bool \<Rightarrow> Point2D list"
  eatF :: "nat \<Rightarrow> Point2D \<Rightarrow> food_array \<Rightarrow> Point2D list \<Rightarrow> food_array option"
  incrementSnakeSpeedF :: "int \<Rightarrow> int"
  isGameOverF :: "scene \<Rightarrow> bool"
  nextDirectionF :: "Point2D \<Rightarrow> Point2D \<Rightarrow> Point2D"

section \<open>The signal graph of index.ts\<close>

definition DIRECTIONS :: "string \<Rightarrow> Point2D option" where
  "DIRECTIONS = map_of
     [(''ArrowLeft'', \<lparr>x = -1, y = 0\<rparr>),
      (''ArrowRight'', \<lparr>x = 1, y = 0\<rparr>),
      (''ArrowUp'', \<lparr>x = 0, y = -1\<rparr>),
      (''ArrowDown'', \<lparr>x = 0, y = 1\<rparr>)]"

definition DIRECTIONS_BUTTON :: "string \<Rightarrow> Point2D option" where
  "DIRECTIONS_BUTTON = map_of
     [(''left'', \<lparr>x = -1, y = 0\<rparr>),
      (''right'', \<lparr>x = 1, y = 0\<rparr>),
      (''up'', \<lparr>x = 0, y = -1\<rparr>),
      (''down'', \<lparr>x = 0, y = 1\<rparr>)]"

text \<open>
  The second entry file of the repository builds the same graph, operator for operator,
  from \<^verbatim>\<open>keydown\<close> events alone; it reads the direction from \<^verbatim>\<open>event.keyCode\<close> in this
  table and starts with the entry of the down arrow.
\<close>

definition DIRECTIONS_keyCode :: "nat \<Rightarrow> Point2D option" where
  "DIRECTIONS_keyCode = map_of
     [(37, \<lparr>x = -1, y = 0\<rparr>),
      (39, \<lparr>x = 1, y = 0\<rparr>),
      (38, \<lparr>x = 0, y = -1\<rparr>),
      (40, \<lparr>x = 0, y = 1\<rparr>)]"

definition INITIAL_DIRECTION :: Point2D where
  "INITIAL_DIRECTION = \<lparr>x = 0, y = 1\<rparr>"

text \<open>
  The state of the running graph: the two module variables \<^verbatim>\<open>PAUSE\<close> and \<^verbatim>\<open>SPEED\<close>, and
  for every stateful operator its memory.
  \<^item> \<open>speedSubject\<close>, \<open>length_subject\<close>: the values the two \<^verbatim>\<open>BehaviorSubject\<close>s have
    emitted, oldest first;
  \<^item> \<open>ticks_inner\<close>: the inner \<^verbatim>\<open>interval\<close> subscriptions that \<^verbatim>\<open>switchMap\<close> holds alive;
  \<^item> \<open>direction_scan\<close>: the accumulator of the seedless \<^verbatim>\<open>scan(nextDirection)\<close>, absent
    until its first value; \<open>direction_latest\<close>: the last value \<^verbatim>\<open>distinctUntilChanged\<close>
    let through, which is what \<^verbatim>\<open>withLatestFrom\<close> holds; \<open>direction_out\<close>: every value
    \<^verbatim>\<open>direction$\<close> has emitted, oldest first;
  \<^item> \<open>pause_latest\<close>: the last value of \<^verbatim>\<open>pause$\<close>;
  \<^item> \<open>snakeLength\<close>, \<open>score_scan\<close>, \<open>snake_scan\<close>, \<open>apples_scan\<close>: the accumulators of
    the four other \<^verbatim>\<open>scan\<close>s;
  \<^item> \<open>apples_address\<close>: the address of the array whose cells \<open>apples_scan\<close> are;
    \<open>next_address\<close>: the address the next new array gets;
  \<^item> \<open>apples_latest\<close>, \<open>apples_latest_address\<close>: cells and address of the last array
    \<^verbatim>\<open>distinctUntilChanged\<close> of \<^verbatim>\<open>apples$\<close> let through; \<open>apples_count\<close>: how many values
    \<^verbatim>\<open>skip(1)\<close> of \<^verbatim>\<open>appleEaten$\<close> has seen;
  \<^item> \<open>combine_snake\<close>, \<open>combine_apples\<close>, \<open>combine_score\<close>: the three slots of
    \<^verbatim>\<open>combineLatest\<close>; \<open>scene_out\<close>: every scene \<^verbatim>\<open>scene$\<close> has emitted;
    \<open>scene_latest\<close>: the one \<^verbatim>\<open>withLatestFrom\<close> of \<^verbatim>\<open>game$\<close> holds;
  \<^item> \<open>game_done\<close>: \<^verbatim>\<open>takeWhile\<close> has completed \<^verbatim>\<open>game$\<close>; \<open>rendered\<close>: the calls made
    on the canvas module, oldest first.
\<close>

record state =
  PAUSE :: bool
  SPEED :: int
  speedSubject :: "int list"
  ticks_inner :: "timer list"
  pause_latest :: bool
  direction_scan :: "Point2D option"
  direction_latest :: Point2D
  direction_out :: "Point2D list"
  length_subject :: "int list"
  snakeLength :: int
  score_scan :: int
  snake_scan :: "Point2D list"
  apples_scan :: "Point2D list"
  apples_address :: nat
  next_address :: nat
  apples_latest :: "Point2D list option"
  apples_latest_address :: "nat option"
  apples_count :: nat
  combine_snake :: "Point2D list option"
  combine_apples :: "Point2D list option"
  combine_score :: "int option"
  scene_latest :: "scene option"
  scene_out :: "scene list"
  game_done :: bool
  rendered :: "render_call list"

text \<open>
  The state once the module has been evaluated, that is after the two \<^verbatim>\<open>subscribe\<close>
  calls and before any event.

  \<^verbatim>\<open>appleEaten$ ... .subscribe()\<close> subscribes \<^verbatim>\<open>apples$\<close>, hence \<^verbatim>\<open>snake$\<close>, whose
  \<^verbatim>\<open>withLatestFrom\<close> subscribes \<^verbatim>\<open>direction$\<close> (\<^verbatim>\<open>startWith\<close> emits
  \<^verbatim>\<open>INITIAL_DIRECTION\<close>), \<^verbatim>\<open>snakeLength$\<close> (the \<^verbatim>\<open>BehaviorSubject\<close> emits
  \<^verbatim>\<open>SNAKE_LENGTH\<close>, which the seedless \<^verbatim>\<open>scan\<close> passes on as its first accumulator) and
  \<^verbatim>\<open>pause$\<close> (\<^verbatim>\<open>startWith(PAUSE)\<close>), and then \<^verbatim>\<open>ticks$\<close>, where \<^verbatim>\<open>speedSubject\<close> emits
  150 and \<^verbatim>\<open>switchMap\<close> subscribes \<^verbatim>\<open>interval(150)\<close>.

  \<^verbatim>\<open>game$ ... .subscribe(...)\<close> then subscribes \<^verbatim>\<open>scene$\<close>: \<^verbatim>\<open>combineLatest\<close> joins the
  shared \<^verbatim>\<open>snake$\<close> and \<^verbatim>\<open>apples$\<close>, which have emitted nothing yet, and \<^verbatim>\<open>score$\<close>,
  whose \<^verbatim>\<open>startWith(0)\<close> emits 0 that the seedless \<^verbatim>\<open>scan\<close> passes on. \<^verbatim>\<open>score$\<close> joins
  the shared \<^verbatim>\<open>snakeLength$\<close> after its first emission was delivered, and \<^verbatim>\<open>share()\<close>
  replays nothing, so that emission never reaches the score.
\<close>

definition initial :: "collab \<Rightarrow> state" where
  "initial c =
     \<lparr>PAUSE = False, SPEED = 150, speedSubject = [150],
      ticks_inner = [\<lparr>period = 150, counter = 0\<rparr>],
      pause_latest = False,
      direction_scan = None, direction_latest = INITIAL_DIRECTION,
      direction_out = [INITIAL_DIRECTION],
      length_subject = [SNAKE_LENGTH c], snakeLength = SNAKE_LENGTH c,
      score_scan = 0,
      snake_scan = generateSnake c, apples_scan = generateApples c,
      apples_address = 0, next_address = 1,
      apples_latest = None, apples_latest_address = None, apples_count = 0,
      combine_snake = None, combine_apples = None, combine_score = Some 0,
      scene_latest = None, scene_out = [],
      game_done = False, rendered = []\<rparr>"

subsection \<open>scene$\<close>

text \<open>
  \<^verbatim>\<open>combineLatest(snake$, apples$, score$)\<close> after one of its slots was filled: it emits
  the composite of the three slots once none is empty. The emission reaches
  \<^verbatim>\<open>withLatestFrom\<close> of \<^verbatim>\<open>game$\<close>, which keeps it.
\<close>

definition combine_emit :: "state \<Rightarrow> state" where
  "combine_emit s =
     (case (combine_snake s, combine_apples s, combine_score s) of
        (Some sn, Some ap, Some sc) \<Rightarrow>
          (let v = \<lparr>snake = sn, apples = ap, score = sc\<rparr>
           in s\<lparr>scene_latest := Some v, scene_out := scene_out s @ [v]\<rparr>)
      | _ \<Rightarrow> s)"

text \<open>
  The three inputs of \<^verbatim>\<open>combineLatest\<close>. Once \<^verbatim>\<open>game$\<close> has completed, its chain is
  unsubscribed, \<^verbatim>\<open>scene$\<close> with it, and the three subscriptions are gone.
\<close>

definition scene_snake :: "Point2D list \<Rightarrow> state \<Rightarrow> state" where
  "scene_snake sn s =
     (if game_done s then s else combine_emit (s\<lparr>combine_snake := Some sn\<rparr>))"

definition scene_apples :: "Point2D list \<Rightarrow> state \<Rightarrow> state" where
  "scene_apples ap s =
     (if game_done s then s else combine_emit (s\<lparr>combine_apples := Some ap\<rparr>))"

definition scene_score :: "int \<Rightarrow> state \<Rightarrow> state" where
  "scene_score sc s =
     (if game_done s then s else combine_emit (s\<lparr>combine_score := Some sc\<rparr>))"

subsection \<open>length$, snakeLength$ and score$\<close>

text \<open>
  \<^verbatim>\<open>length$.next(v)\<close>. \<^verbatim>\<open>scan((step, snakeLength) => snakeLength + step)\<close> adds the
  value to its accumulator and emits the sum to the subscribers of the shared
  \<^verbatim>\<open>snakeLength$\<close>: first \<^verbatim>\<open>withLatestFrom\<close> of \<^verbatim>\<open>snake$\<close>, which keeps it, then
  \<^verbatim>\<open>score$\<close>, whose \<^verbatim>\<open>scan((score, _) => score + POINTS_PER_APPLE)\<close> ignores the value
  and emits the raised score into \<^verbatim>\<open>combineLatest\<close>.
\<close>

definition score_next :: "collab \<Rightarrow> state \<Rightarrow> state" where
  "score_next c s =
     (if game_done s then s
      else (let sc = score_scan s + POINTS_PER_APPLE c
            in scene_score sc (s\<lparr>score_scan := sc\<rparr>)))"

definition length_next :: "collab \<Rightarrow> int \<Rightarrow> state \<Rightarrow> state" where
  "length_next c v s =
     score_next c
       (s\<lparr>length_subject := length_subject s @ [v], snakeLength := v + snakeLength s\<rparr>)"

subsection \<open>ticks$\<close>

text \<open>
  \<^verbatim>\<open>speedSubject.next(v)\<close>: \<^verbatim>\<open>switchMap(v => interval(v))\<close> unsubscribes the inner
  subscription it holds and subscribes a new \<^verbatim>\<open>interval(v)\<close>, which counts from 0.
\<close>

definition switchMap_interval :: "int \<Rightarrow> timer list \<Rightarrow> timer list" where
  "switchMap_interval v inner = [\<lparr>period = v, counter = 0\<rparr>]"

definition speed_next :: "int \<Rightarrow> state \<Rightarrow> state" where
  "speed_next v s =
     s\<lparr>speedSubject := speedSubject s @ [v],
       ticks_inner := switchMap_interval v (ticks_inner s)\<rparr>"

subsection \<open>appleEaten$ and apples$\<close>

text \<open>
  A value of \<^verbatim>\<open>apples$\<close> arrives at \<^verbatim>\<open>appleEaten$\<close>: \<^verbatim>\<open>skip(1)\<close> drops the first one, the
  \<^verbatim>\<open>tap\<close> runs on every later one.
\<close>

definition appleEaten_next :: "collab \<Rightarrow> state \<Rightarrow> state" where
  "appleEaten_next c s =
     (if apples_count s < 1 then s\<lparr>apples_count := apples_count s + 1\<rparr>
      else (let v = incrementSnakeSpeedF c (SPEED s);
                s1 = speed_next v (s\<lparr>SPEED := v, apples_count := apples_count s + 1\<rparr>)
            in length_next c (POINTS_PER_APPLE c) s1))"

text \<open>
  \<^verbatim>\<open>eat\<close> has returned the array \<open>arr\<close> to \<^verbatim>\<open>scan(eat, generateApples())\<close>, which keeps it and
  emits it. An array at the address of the one the \<^verbatim>\<open>scan\<close> held is that array, with its
  cells. \<^verbatim>\<open>distinctUntilChanged()\<close> compares it by \<^verbatim>\<open>===\<close>, that is by address, with the
  last array it let through, and passes a different one on to the subscribers of the
  shared stream in the order they subscribed, \<^verbatim>\<open>appleEaten$\<close> before \<^verbatim>\<open>combineLatest\<close>.
\<close>

definition apples_emit :: "collab \<Rightarrow> food_array \<Rightarrow> state \<Rightarrow> state" where
  "apples_emit c arr s =
     (let ap = (if address arr = apples_address s then apples_scan s else cells arr);
          s1 = s\<lparr>apples_scan := ap, apples_address := address arr,
                 next_address := next_address s + 1\<rparr>
      in if apples_latest_address s = Some (address arr) then s1
         else scene_apples ap
                (appleEaten_next c
                   (s1\<lparr>apples_latest := Some ap, apples_latest_address := Some (address arr)\<rparr>)))"

text \<open>
  A value of \<^verbatim>\<open>snake$\<close> arrives at \<^verbatim>\<open>apples$\<close>: \<^verbatim>\<open>scan(eat, generateApples())\<close> calls \<^verbatim>\<open>eat\<close>
  on the array it holds and the snake. There is no next state when the call does not
  return.
\<close>

definition apples_next :: "collab \<Rightarrow> Point2D \<Rightarrow> Point2D list \<Rightarrow> state \<Rightarrow> state option" where
  "apples_next c r sn s =
     (case eatF c (next_address s) r \<lparr>address = apples_address s, cells = apples_scan s\<rparr> sn of
        None \<Rightarrow> None
      | Some arr \<Rightarrow> Some (apples_emit c arr s))"

subsection \<open>snake$\<close>

text \<open>
  The \<open>n\<close>-th live inner interval fires. It emits its counter; \<^verbatim>\<open>withLatestFrom\<close>
  replaces the counter by the latest direction, target length and pause flag (each has a
  value since subscription); \<^verbatim>\<open>scan(move, generateSnake())\<close> computes the next snake.
\<close>

definition snake_next :: "collab \<Rightarrow> nat \<Rightarrow> state \<Rightarrow> state" where
  "snake_next c n s =
     (let t = ticks_inner s ! n;
          s1 = s\<lparr>ticks_inner := (ticks_inner s)[n := t\<lparr>counter := counter t + 1\<rparr>]\<rparr>;
          sn = moveF c (snake_scan s1) (direction_latest s1, snakeLength s1, pause_latest s1)
      in s1\<lparr>snake_scan := sn\<rparr>)"

text \<open>
  The tick as a whole: the next snake is emitted to the subscribers of the shared
  \<^verbatim>\<open>snake$\<close> in the order they subscribed, \<^verbatim>\<open>apples$\<close> before \<^verbatim>\<open>combineLatest\<close>. An index
  with no live interval is an event that cannot occur and changes nothing; so is a tick
  during which \<^verbatim>\<open>eat\<close> does not return, since a run is made of the events the page has
  handled to the end.
\<close>

definition tick :: "collab \<Rightarrow> nat \<Rightarrow> Point2D \<Rightarrow> state \<Rightarrow> state" where
  "tick c n r s =
     (if n < length (ticks_inner s) then
        (let s2 = snake_next c n s
         in case apples_next c r (snake_scan s2) s2 of
              None \<Rightarrow> s
            | Some s3 \<Rightarrow> scene_snake (snake_scan s2) s3)
      else s)"

subsection \<open>direction$ and pause$\<close>

text \<open>
  The \<^verbatim>\<open>map\<close> of \<^verbatim>\<open>direction$\<close>: a key is looked up in \<^verbatim>\<open>DIRECTIONS\<close>, the id of a
  clicked element, when it has one, in \<^verbatim>\<open>DIRECTIONS_BUTTON\<close>; everything else is
  \<^verbatim>\<open>undefined\<close>. The tables are read as their four own entries: a key or an id that
  names a member of \<^verbatim>\<open>Object.prototype\<close> is outside the model.
\<close>

fun toDirection :: "event \<Rightarrow> Point2D option" where
  "toDirection (KeyDown key) = DIRECTIONS key"
| "toDirection (Click ident) = (if ident \<noteq> [] then DIRECTIONS_BUTTON ident else None)"
| "toDirection _ = None"

text \<open>
  The rest of \<^verbatim>\<open>direction$\<close>: \<^verbatim>\<open>filter(direction => !!direction)\<close> drops
  \<^verbatim>\<open>undefined\<close>; \<^verbatim>\<open>scan(nextDirection)\<close> has no seed, so it takes its first value as
  the accumulator and emits it without calling \<^verbatim>\<open>nextDirection\<close>;
  \<^verbatim>\<open>startWith(INITIAL_DIRECTION)\<close>, applied after the \<^verbatim>\<open>scan\<close>, has emitted at
  subscription and passes everything on; \<^verbatim>\<open>distinctUntilChanged()\<close> drops a value equal
  to the last one it let through. The source compares the table entries with \<^verbatim>\<open>===\<close>,
  the model compares coordinates: a click that repeats the direction last emitted for a
  key, or a key that repeats the one of a click, is emitted once more by the source and
  not by the model. The coordinates that \<^verbatim>\<open>withLatestFrom\<close> holds are the same.
\<close>

definition direction_next :: "collab \<Rightarrow> Point2D option \<Rightarrow> state \<Rightarrow> state" where
  "direction_next c d s =
     (case d of
        None \<Rightarrow> s
      | Some req \<Rightarrow>
          (let acc = (case direction_scan s of
                        None \<Rightarrow> req
                      | Some prev \<Rightarrow> nextDirectionF c prev req);
               s1 = s\<lparr>direction_scan := Some acc\<rparr>
           in if direction_latest s = acc then s1
              else s1\<lparr>direction_latest := acc, direction_out := direction_out s @ [acc]\<rparr>))"

text \<open>
  \<^verbatim>\<open>pause$\<close>: the space key flips \<^verbatim>\<open>PAUSE\<close> and emits it; \<^verbatim>\<open>distinctUntilChanged()\<close>
  compares it with the last value let through.
\<close>

definition pause_next :: "string \<Rightarrow> state \<Rightarrow> state" where
  "pause_next key s =
     (if key = '' '' then
        (let p = \<not> PAUSE s; s1 = s\<lparr>PAUSE := p\<rparr>
         in if pause_latest s = p then s1 else s1\<lparr>pause_latest := p\<rparr>)
      else s)"

subsection \<open>game$\<close>

text \<open>
  An animation frame: \<^verbatim>\<open>withLatestFrom(scene$, (_, scene) => scene)\<close> drops the frame
  while \<^verbatim>\<open>scene$\<close> has emitted nothing; \<^verbatim>\<open>takeWhile(scene => !isGameOver(scene))\<close>
  passes the scene to \<^verbatim>\<open>renderScene\<close>, or completes, which calls \<^verbatim>\<open>renderGameOver\<close> and
  unsubscribes the chain. After that no frame is delivered.
\<close>

definition game_next :: "collab \<Rightarrow> state \<Rightarrow> state" where
  "game_next c s =
     (if game_done s then s
      else (case scene_latest s of
              None \<Rightarrow> s
            | Some v \<Rightarrow>
                if \<not> isGameOverF c v then s\<lparr>rendered := rendered s @ [RenderScene v]\<rparr>
                else s\<lparr>game_done := True, rendered := rendered s @ [RenderGameOver]\<rparr>))"

subsection \<open>The event loop\<close>

fun step :: "collab \<Rightarrow> event \<Rightarrow> state \<Rightarrow> state" where
  "step c (KeyDown key) s = pause_next key (direction_next c (toDirection (KeyDown key)) s)"
| "step c (Click ident) s = direction_next c (toDirection (Click ident)) s"
| "step c (Tick n r) s = tick c n r s"
| "step c Frame s = game_next c s"

definition run_from :: "collab \<Rightarrow> state \<Rightarrow> event list \<Rightarrow> state" where
  "run_from c s evs = foldl (\<lambda>s e. step c e s) s evs"

definition run :: "collab \<Rightarrow> event list \<Rightarrow> state" where
  "run c evs = run_from c (initial c) evs"

section \<open>The imported rules, from their specification\<close>

text \<open>
  Modelled from the spec: \<^verbatim>\<open>nextDirection\<close> of \<^verbatim>\<open>./game.util\<close>, which is not among
  the sources. It rejects the requested direction if it is the exact opposite of the
  previous one (a reversal by 180 degrees), else returns the requested one.
\<close>

definition nextDirection :: "Point2D \<Rightarrow> Point2D \<Rightarrow> Point2D" where
  "nextDirection previous requested =
     (if x requested = - x previous \<and> y requested = - y previous then previous
      else requested)"

text \<open>
  Modelled from the spec: \<^verbatim>\<open>move\<close> of \<^verbatim>\<open>./game.util\<close>, which is not among the sources.
  If paused, it returns the snake unchanged. Otherwise the new head is the current head
  plus the direction; it is put in front, and the tail is cut so that the length is the
  target length. \<^verbatim>\<open>index.ts\<close> passes direction, target length and pause flag as the
  array \<^verbatim>\<open>[direction, snakeLength, pause]\<close>. The spec says nothing about a snake
  without cells, which has no head; the model leaves it as it is.
\<close>

fun move :: "Point2D list \<Rightarrow> Point2D \<times> int \<times> bool \<Rightarrow> Point2D list" where
  "move sn (d, n, True) = sn"
| "move [] (d, n, False) = []"
| "move (h # t) (d, n, False) = take (nat n) (\<lparr>x = x h + x d, y = y h + y d\<rparr> # h # t)"

text \<open>
  Modelled from the spec: the random placement inside \<^verbatim>\<open>eat\<close>, which generates one
  replacement cell not currently occupied by the snake or any remaining food. The cells
  the random generator proposes are an input; the first free one is taken, and there is
  no result when none of them is free.
\<close>

definition replacement_cell ::
  "Point2D list \<Rightarrow> Point2D list \<Rightarrow> Point2D list \<Rightarrow> Point2D option" where
  "replacement_cell draws sn remaining =
     find (\<lambda>cell. cell \<notin> set sn \<and> cell \<notin> set remaining) draws"

text \<open>
  Modelled from the spec: \<^verbatim>\<open>eat\<close> of \<^verbatim>\<open>./game.util\<close>, which is not among the sources.
  If the head of the snake coincides with a food cell, it removes that cell and
  generates one replacement cell with the random placement, in a new array, which is put
  at the address \<open>fresh\<close>; otherwise it returns the array it was given. It does not
  return when the placement finds no cell.
\<close>

definition eat ::
  "nat \<Rightarrow> Point2D list \<Rightarrow> food_array \<Rightarrow> Point2D list \<Rightarrow> food_array option" where
  "eat fresh draws food sn =
     (case sn of
        [] \<Rightarrow> Some food
      | h # t \<Rightarrow>
          if h \<in> set (cells food) then
            (case replacement_cell draws sn (remove1 h (cells food)) of
               None \<Rightarrow> None
             | Some r \<Rightarrow> Some \<lparr>address = fresh, cells = remove1 h (cells food) @ [r]\<rparr>)
          else Some food)"

text \<open>
  Modelled from the spec: \<^verbatim>\<open>isGameOver\<close> of \<^verbatim>\<open>./game.util\<close>, which is not among the
  sources. It is true if the head of the snake coincides with any other cell of the
  snake, or lies outside the grid, whose numbers of columns and rows are configuration
  constants.
\<close>

definition isGameOver :: "int \<Rightarrow> int \<Rightarrow> scene \<Rightarrow> bool" where
  "isGameOver cols rows v =
     (case snake v of
        [] \<Rightarrow> False
      | h # t \<Rightarrow> h \<in> set t \<or> x h < 0 \<or> cols \<le> x h \<or> y h < 0 \<or> rows \<le> y h)"

text \<open>
  Modelled from the spec: \<^verbatim>\<open>incrementSnakeSpeed\<close> of \<^verbatim>\<open>./game.util\<close>, which is not
  among the sources. It decreases the tick interval by a fixed step, floored at a
  minimum interval; step and minimum are configuration constants.
\<close>

definition incrementSnakeSpeed :: "int \<Rightarrow> int \<Rightarrow> int \<Rightarrow> int" where
  "incrementSnakeSpeed speed_step min_interval current = max min_interval (current - speed_step)"

text \<open>
  Modelled from the spec: the configuration of its end-to-end scenario, a snake of five
  cells heading down on a grid of 20 by 20 cells, with the rules above. \<^verbatim>\<open>./constants\<close>
  and \<^verbatim>\<open>generateSnake\<close> are not among the sources: the snake is laid along the top row
  with its head at \<open>(4, 0)\<close>, and two points per apple, a speed step of 10 and a minimum
  interval of 50 are taken as examples. The food cells are left open. The cell a tick
  carries is the one draw of the random placement.
\<close>

definition game :: "Point2D list \<Rightarrow> collab" where
  "game food =
     \<lparr>SNAKE_LENGTH = 5, POINTS_PER_APPLE = 2,
      generateSnake = [\<lparr>x = 4, y = 0\<rparr>, \<lparr>x = 3, y = 0\<rparr>, \<lparr>x = 2, y = 0\<rparr>,
                       \<lparr>x = 1, y = 0\<rparr>, \<lparr>x = 0, y = 0\<rparr>],
      generateApples = food,
      moveF = move, eatF = (\<lambda>fresh r. eat fresh [r]),
      incrementSnakeSpeedF = incrementSnakeSpeed 10 50,
      isGameOverF = isGameOver 20 20,
      nextDirectionF = nextDirection\<rparr>"

section \<open>Observations and invariants\<close>

text \<open>
  The number of food consumptions the graph has detected: the values of \<^verbatim>\<open>apples$\<close> that
  got past \<^verbatim>\<open>skip(1)\<close> and ran the \<^verbatim>\<open>tap\<close> of \<^verbatim>\<open>appleEaten$\<close>.
\<close>

definition detected :: "state \<Rightarrow> nat" where
  "detected s = apples_count s - 1"

text \<open>
  The simulation state between two events: the latest snake, food and score, as the
  three \<^verbatim>\<open>scan\<close>s hold them. \<open>snapshots\<close> lists it before the first event and after
  each one.
\<close>

definition snapshot :: "state \<Rightarrow> scene" where
  "snapshot s = \<lparr>snake = snake_scan s, apples = apples_scan s, score = score_scan s\<rparr>"

definition snapshots :: "collab \<Rightarrow> event list \<Rightarrow> scene list" where
  "snapshots c evs = map (\<lambda>k. snapshot (run c (take k evs))) [0..<Suc (length evs)]"


definition score_inv :: "collab \<Rightarrow> state \<Rightarrow> bool" where
  "score_inv c s \<longleftrightarrow>
     game_done s \<or> score_scan s = int (detected s) * POINTS_PER_APPLE c"

definition ticks_inv :: "state \<Rightarrow> bool" where
  "ticks_inv s \<longleftrightarrow>
     (\<exists>k. ticks_inner s = [\<lparr>period = SPEED s, counter = k\<rparr>]) \<and>
     speedSubject s \<noteq> [] \<and> last (speedSubject s) = SPEED s"

definition speed_inv :: "int \<Rightarrow> state \<Rightarrow> bool" where
  "speed_inv m s \<longleftrightarrow>
     sorted_wrt (\<lambda>a b. b \<le> a) (speedSubject s) \<and>
     (\<forall>v\<in>set (speedSubject s). SPEED s \<le> v) \<and> m \<le> SPEED s"

definition render_inv :: "collab \<Rightarrow> state \<Rightarrow> bool" where
  "render_inv c s \<longleftrightarrow>
     (\<exists>vs. rendered s = map RenderScene vs @ (if game_done s then [RenderGameOver] else []) \<and>
           list_all (\<lambda>v. \<not> isGameOverF c v) vs)"

definition scene_log_inv :: "state \<Rightarrow> bool" where
  "scene_log_inv s \<longleftrightarrow>
     (scene_latest s = None \<and> scene_out s = [] \<and> rendered s = [] \<and> \<not> game_done s \<or>
      scene_out s \<noteq> [] \<and> scene_latest s = Some (last (scene_out s)) \<and>
      combine_snake s \<noteq> None \<and> combine_apples s \<noteq> None \<and> combine_score s \<noteq> None) \<and>
     (\<forall>v. RenderScene v \<in> set (rendered s) \<longrightarrow> v \<in> set (scene_out s))"

definition links :: "state \<Rightarrow> bool" where
  "links s \<longleftrightarrow>
     combine_score s = Some (score_scan s) \<and>
     (apples_latest_address s = None \<and> apples_latest s = None \<and> combine_apples s = None \<or>
      apples_latest_address s = Some (apples_address s) \<and>
      apples_latest s = Some (apples_scan s) \<and> combine_apples s = Some (apples_scan s))"

definition scene_inv :: "state \<Rightarrow> bool" where
  "scene_inv s \<longleftrightarrow>
     game_done s \<or>
     links s \<and>
     (combine_snake s = None \<and> apples_latest s = None \<and> scene_latest s = None \<or>
      combine_snake s = Some (snake_scan s) \<and> apples_latest s \<noteq> None \<and>
      scene_latest s = Some (snapshot s))"

section \<open>What each operator leaves alone\<close>

text \<open>
  For every operator of the graph, the fields of the state it does not write.
\<close>

lemma combine_emit_frame [simp]:
  "PAUSE (combine_emit s) = PAUSE s"
  "SPEED (combine_emit s) = SPEED s"
  "speedSubject (combine_emit s) = speedSubject s"
  "ticks_inner (combine_emit s) = ticks_inner s"
  "pause_latest (combine_emit s) = pause_latest s"
  "direction_scan (combine_emit s) = direction_scan s"
  "direction_latest (combine_emit s) = direction_latest s"
  "direction_out (combine_emit s) = direction_out s"
  "length_subject (combine_emit s) = length_subject s"
  "snakeLength (combine_emit s) = snakeLength s"
  "score_scan (combine_emit s) = score_scan s"
  "snake_scan (combine_emit s) = snake_scan s"
  "apples_scan (combine_emit s) = apples_scan s"
  "apples_address (combine_emit s) = apples_address s"
  "next_address (combine_emit s) = next_address s"
  "apples_latest (combine_emit s) = apples_latest s"
  "apples_latest_address (combine_emit s) = apples_latest_address s"
  "apples_count (combine_emit s) = apples_count s"
  "combine_snake (combine_emit s) = combine_snake s"
  "combine_apples (combine_emit s) = combine_apples s"
  "combine_score (combine_emit s) = combine_score s"
  "game_done (combine_emit s) = game_done s"
  "rendered (combine_emit s) = rendered s"
  by (simp_all add: combine_emit_def Let_def split: option.splits)

lemma scene_snake_frame [simp]:
  "PAUSE (scene_snake sn s) = PAUSE s"
  "SPEED (scene_snake sn s) = SPEED s"
  "speedSubject (scene_snake sn s) = speedSubject s"
  "ticks_inner (scene_snake sn s) = ticks_inner s"
  "pause_latest (scene_snake sn s) = pause_latest s"
  "direction_scan (scene_snake sn s) = direction_scan s"
  "direction_latest (scene_snake sn s) = direction_latest s"
  "direction_out (scene_snake sn s) = direction_out s"
  "length_subject (scene_snake sn s) = length_subject s"
  "snakeLength (scene_snake sn s) = snakeLength s"
  "score_scan (scene_snake sn s) = score_scan s"
  "snake_scan (scene_snake sn s) = snake_scan s"
  "apples_scan (scene_snake sn s) = apples_scan s"
  "apples_address (scene_snake sn s) = apples_address s"
  "next_address (scene_snake sn s) = next_address s"
  "apples_latest (scene_snake sn s) = apples_latest s"
  "apples_latest_address (scene_snake sn s) = apples_latest_address s"
  "apples_count (scene_snake sn s) = apples_count s"
  "combine_apples (scene_snake sn s) = combine_apples s"
  "combine_score (scene_snake sn s) = combine_score s"
  "game_done (scene_snake sn s) = game_done s"
  "rendered (scene_snake sn s) = rendered s"
  by (simp_all add: scene_snake_def Let_def)

lemma scene_apples_frame [simp]:
  "PAUSE (scene_apples ap s) = PAUSE s"
  "SPEED (scene_apples ap s) = SPEED s"
  "speedSubject (scene_apples ap s) = speedSubject s"
  "ticks_inner (scene_apples ap s) = ticks_inner s"
  "pause_latest (scene_apples ap s) = pause_latest s"
  "direction_scan (scene_apples ap s) = direction_scan s"
  "direction_latest (scene_apples ap s) = direction_latest s"
  "direction_out (scene_apples ap s) = direction_out s"
  "length_subject (scene_apples ap s) = length_subject s"
  "snakeLength (scene_apples ap s) = snakeLength s"
  "score_scan (scene_apples ap s) = score_scan s"
  "snake_scan (scene_apples ap s) = snake_scan s"
  "apples_scan (scene_apples ap s) = apples_scan s"
  "apples_address (scene_apples ap s) = apples_address s"
  "next_address (scene_apples ap s) = next_address s"
  "apples_latest (scene_apples ap s) = apples_latest s"
  "apples_latest_address (scene_apples ap s) = apples_latest_address s"
  "apples_count (scene_apples ap s) = apples_count s"
  "combine_snake (scene_apples ap s) = combine_snake s"
  "combine_score (scene_apples ap s) = combine_score s"
  "game_done (scene_apples ap s) = game_done s"
  "rendered (scene_apples ap s) = rendered s"
  by (simp_all add: scene_apples_def Let_def)

lemma scene_score_frame [simp]:
  "PAUSE (scene_score v s) = PAUSE s"
  "SPEED (scene_score v s) = SPEED s"
  "speedSubject (scene_score v s) = speedSubject s"
  "ticks_inner (scene_score v s) = ticks_inner s"
  "pause_latest (scene_score v s) = pause_latest s"
  "direction_scan (scene_score v s) = direction_scan s"
  "direction_latest (scene_score v s) = direction_latest s"
  "direction_out (scene_score v s) = direction_out s"
  "length_subject (scene_score v s) = length_subject s"
  "snakeLength (scene_score v s) = snakeLength s"
  "score_scan (scene_score v s) = score_scan s"
  "snake_scan (scene_score v s) = snake_scan s"
  "apples_scan (scene_score v s) = apples_scan s"
  "apples_address (scene_score v s) = apples_address s"
  "next_address (scene_score v s) = next_address s"
  "apples_latest (scene_score v s) = apples_latest s"
  "apples_latest_address (scene_score v s) = apples_latest_address s"
  "apples_count (scene_score v s) = apples_count s"
  "combine_snake (scene_score v s) = combine_snake s"
  "combine_apples (scene_score v s) = combine_apples s"
  "game_done (scene_score v s) = game_done s"
  "rendered (scene_score v s) = rendered s"
  by (simp_all add: scene_score_def Let_def)

lemma score_next_frame [simp]:
  "PAUSE (score_next c s) = PAUSE s"
  "SPEED (score_next c s) = SPEED s"
  "speedSubject (score_next c s) = speedSubject s"
  "ticks_inner (score_next c s) = ticks_inner s"
  "pause_latest (score_next c s) = pause_latest s"
  "direction_scan (score_next c s) = direction_scan s"
  "direction_latest (score_next c s) = direction_latest s"
  "direction_out (score_next c s) = direction_out s"
  "length_subject (score_next c s) = length_subject s"
  "snakeLength (score_next c s) = snakeLength s"
  "snake_scan (score_next c s) = snake_scan s"
  "apples_scan (score_next c s) = apples_scan s"
  "apples_address (score_next c s) = apples_address s"
  "next_address (score_next c s) = next_address s"
  "apples_latest (score_next c s) = apples_latest s"
  "apples_latest_address (score_next c s) = apples_latest_address s"
  "apples_count (score_next c s) = apples_count s"
  "combine_snake (score_next c s) = combine_snake s"
  "combine_apples (score_next c s) = combine_apples s"
  "game_done (score_next c s) = game_done s"
  "rendered (score_next c s) = rendered s"
  by (simp_all add: score_next_def Let_def)

lemma length_next_frame [simp]:
  "PAUSE (length_next c v s) = PAUSE s"
  "SPEED (length_next c v s) = SPEED s"
  "speedSubject (length_next c v s) = speedSubject s"
  "ticks_inner (length_next c v s) = ticks_inner s"
  "pause_latest (length_next c v s) = pause_latest s"
  "direction_scan (length_next c v s) = direction_scan s"
  "direction_latest (length_next c v s) = direction_latest s"
  "direction_out (length_next c v s) = direction_out s"
  "snake_scan (length_next c v s) = snake_scan s"
  "apples_scan (length_next c v s) = apples_scan s"
  "apples_address (length_next c v s) = apples_address s"
  "next_address (length_next c v s) = next_address s"
  "apples_latest (length_next c v s) = apples_latest s"
  "apples_latest_address (length_next c v s) = apples_latest_address s"
  "apples_count (length_next c v s) = apples_count s"
  "combine_snake (length_next c v s) = combine_snake s"
  "combine_apples (length_next c v s) = combine_apples s"
  "game_done (length_next c v s) = game_done s"
  "rendered (length_next c v s) = rendered s"
  by (simp_all add: length_next_def Let_def)

lemma speed_next_frame [simp]:
  "PAUSE (speed_next v s) = PAUSE s"
  "SPEED (speed_next v s) = SPEED s"
  "pause_latest (speed_next v s) = pause_latest s"
  "direction_scan (speed_next v s) = direction_scan s"
  "direction_latest (speed_next v s) = direction_latest s"
  "direction_out (speed_next v s) = direction_out s"
  "length_subject (speed_next v s) = length_subject s"
  "snakeLength (speed_next v s) = snakeLength s"
  "score_scan (speed_next v s) = score_scan s"
  "snake_scan (speed_next v s) = snake_scan s"
  "apples_scan (speed_next v s) = apples_scan s"
  "apples_address (speed_next v s) = apples_address s"
  "next_address (speed_next v s) = next_address s"
  "apples_latest (speed_next v s) = apples_latest s"
  "apples_latest_address (speed_next v s) = apples_latest_address s"
  "apples_count (speed_next v s) = apples_count s"
  "combine_snake (speed_next v s) = combine_snake s"
  "combine_apples (speed_next v s) = combine_apples s"
  "combine_score (speed_next v s) = combine_score s"
  "scene_latest (speed_next v s) = scene_latest s"
  "scene_out (speed_next v s) = scene_out s"
  "game_done (speed_next v s) = game_done s"
  "rendered (speed_next v s) = rendered s"
  by (simp_all add: speed_next_def Let_def)

lemma appleEaten_next_frame [simp]:
  "PAUSE (appleEaten_next c s) = PAUSE s"
  "pause_latest (appleEaten_next c s) = pause_latest s"
  "direction_scan (appleEaten_next c s) = direction_scan s"
  "direction_latest (appleEaten_next c s) = direction_latest s"
  "direction_out (appleEaten_next c s) = direction_out s"
  "snake_scan (appleEaten_next c s) = snake_scan s"
  "apples_scan (appleEaten_next c s) = apples_scan s"
  "apples_address (appleEaten_next c s) = apples_address s"
  "next_address (appleEaten_next c s) = next_address s"
  "apples_latest (appleEaten_next c s) = apples_latest s"
  "apples_latest_address (appleEaten_next c s) = apples_latest_address s"
  "combine_snake (appleEaten_next c s) = combine_snake s"
  "combine_apples (appleEaten_next c s) = combine_apples s"
  "game_done (appleEaten_next c s) = game_done s"
  "rendered (appleEaten_next c s) = rendered s"
  by (simp_all add: appleEaten_next_def Let_def)

lemma apples_emit_frame [simp]:
  "PAUSE (apples_emit c arr s) = PAUSE s"
  "pause_latest (apples_emit c arr s) = pause_latest s"
  "direction_scan (apples_emit c arr s) = direction_scan s"
  "direction_latest (apples_emit c arr s) = direction_latest s"
  "direction_out (apples_emit c arr s) = direction_out s"
  "snake_scan (apples_emit c arr s) = snake_scan s"
  "combine_snake (apples_emit c arr s) = combine_snake s"
  "game_done (apples_emit c arr s) = game_done s"
  "rendered (apples_emit c arr s) = rendered s"
  by (simp_all add: apples_emit_def Let_def)

lemma snake_next_frame [simp]:
  "PAUSE (snake_next c n s) = PAUSE s"
  "SPEED (snake_next c n s) = SPEED s"
  "speedSubject (snake_next c n s) = speedSubject s"
  "pause_latest (snake_next c n s) = pause_latest s"
  "direction_scan (snake_next c n s) = direction_scan s"
  "direction_latest (snake_next c n s) = direction_latest s"
  "direction_out (snake_next c n s) = direction_out s"
  "length_subject (snake_next c n s) = length_subject s"
  "snakeLength (snake_next c n s) = snakeLength s"
  "score_scan (snake_next c n s) = score_scan s"
  "apples_scan (snake_next c n s) = apples_scan s"
  "apples_address (snake_next c n s) = apples_address s"
  "next_address (snake_next c n s) = next_address s"
  "apples_latest (snake_next c n s) = apples_latest s"
  "apples_latest_address (snake_next c n s) = apples_latest_address s"
  "apples_count (snake_next c n s) = apples_count s"
  "combine_snake (snake_next c n s) = combine_snake s"
  "combine_apples (snake_next c n s) = combine_apples s"
  "combine_score (snake_next c n s) = combine_score s"
  "scene_latest (snake_next c n s) = scene_latest s"
  "scene_out (snake_next c n s) = scene_out s"
  "game_done (snake_next c n s) = game_done s"
  "rendered (snake_next c n s) = rendered s"
  by (simp_all add: snake_next_def Let_def)

lemma tick_frame [simp]:
  "PAUSE (tick c n r s) = PAUSE s"
  "pause_latest (tick c n r s) = pause_latest s"
  "direction_scan (tick c n r s) = direction_scan s"
  "direction_latest (tick c n r s) = direction_latest s"
  "direction_out (tick c n r s) = direction_out s"
  "game_done (tick c n r s) = game_done s"
  "rendered (tick c n r s) = rendered s"
  by (simp_all add: tick_def apples_next_def Let_def split: option.splits)

lemma direction_next_frame [simp]:
  "PAUSE (direction_next c d s) = PAUSE s"
  "SPEED (direction_next c d s) = SPEED s"
  "speedSubject (direction_next c d s) = speedSubject s"
  "ticks_inner (direction_next c d s) = ticks_inner s"
  "pause_latest (direction_next c d s) = pause_latest s"
  "length_subject (direction_next c d s) = length_subject s"
  "snakeLength (direction_next c d s) = snakeLength s"
  "score_scan (direction_next c d s) = score_scan s"
  "snake_scan (direction_next c d s) = snake_scan s"
  "apples_scan (direction_next c d s) = apples_scan s"
  "apples_address (direction_next c d s) = apples_address s"
  "next_address (direction_next c d s) = next_address s"
  "apples_latest (direction_next c d s) = apples_latest s"
  "apples_latest_address (direction_next c d s) = apples_latest_address s"
  "apples_count (direction_next c d s) = apples_count s"
  "combine_snake (direction_next c d s) = combine_snake s"
  "combine_apples (direction_next c d s) = combine_apples s"
  "combine_score (direction_next c d s) = combine_score s"
  "scene_latest (direction_next c d s) = scene_latest s"
  "scene_out (direction_next c d s) = scene_out s"
  "game_done (direction_next c d s) = game_done s"
  "rendered (direction_next c d s) = rendered s"
  by (simp_all add: direction_next_def Let_def split: option.splits)

lemma pause_next_frame [simp]:
  "SPEED (pause_next key s) = SPEED s"
  "speedSubject (pause_next key s) = speedSubject s"
  "ticks_inner (pause_next key s) = ticks_inner s"
  "direction_scan (pause_next key s) = direction_scan s"
  "direction_latest (pause_next key s) = direction_latest s"
  "direction_out (pause_next key s) = direction_out s"
  "length_subject (pause_next key s) = length_subject s"
  "snakeLength (pause_next key s) = snakeLength s"
  "score_scan (pause_next key s) = score_scan s"
  "snake_scan (pause_next key s) = snake_scan s"
  "apples_scan (pause_next key s) = apples_scan s"
  "apples_address (pause_next key s) = apples_address s"
  "next_address (pause_next key s) = next_address s"
  "apples_latest (pause_next key s) = apples_latest s"
  "apples_latest_address (pause_next key s) = apples_latest_address s"
  "apples_count (pause_next key s) = apples_count s"
  "combine_snake (pause_next key s) = combine_snake s"
  "combine_apples (pause_next key s) = combine_apples s"
  "combine_score (pause_next key s) = combine_score s"
  "scene_latest (pause_next key s) = scene_latest s"
  "scene_out (pause_next key s) = scene_out s"
  "game_done (pause_next key s) = game_done s"
  "rendered (pause_next key s) = rendered s"
  by (simp_all add: pause_next_def Let_def)

lemma game_next_frame [simp]:
  "PAUSE (game_next c s) = PAUSE s"
  "SPEED (game_next c s) = SPEED s"
  "speedSubject (game_next c s) = speedSubject s"
  "ticks_inner (game_next c s) = ticks_inner s"
  "pause_latest (game_next c s) = pause_latest s"
  "direction_scan (game_next c s) = direction_scan s"
  "direction_latest (game_next c s) = direction_latest s"
  "direction_out (game_next c s) = direction_out s"
  "length_subject (game_next c s) = length_subject s"
  "snakeLength (game_next c s) = snakeLength s"
  "score_scan (game_next c s) = score_scan s"
  "snake_scan (game_next c s) = snake_scan s"
  "apples_scan (game_next c s) = apples_scan s"
  "apples_address (game_next c s) = apples_address s"
  "next_address (game_next c s) = next_address s"
  "apples_latest (game_next c s) = apples_latest s"
  "apples_latest_address (game_next c s) = apples_latest_address s"
  "apples_count (game_next c s) = apples_count s"
  "combine_snake (game_next c s) = combine_snake s"
  "combine_apples (game_next c s) = combine_apples s"
  "combine_score (game_next c s) = combine_score s"
  "scene_latest (game_next c s) = scene_latest s"
  "scene_out (game_next c s) = scene_out s"
  by (simp_all add: game_next_def Let_def split: option.splits)

section \<open>Runs\<close>

text \<open>
  A run handles its events one after the other, each one to the end before the next:
  the page has a single thread.
\<close>

lemma run_Nil [simp]: "run c [] = initial c"
  by (simp add: run_def run_from_def)

lemma run_snoc [simp]: "run c (evs @ [e]) = step c e (run c evs)"
  by (simp add: run_def run_from_def)

lemma run_from_snoc [simp]: "run_from c s (evs @ [e]) = step c e (run_from c s evs)"
  by (simp add: run_from_def)

lemma run_from_Nil [simp]: "run_from c s [] = s"
  by (simp add: run_from_def)

section \<open>The length accumulator\<close>

text \<open>
  Only the \<^verbatim>\<open>tap\<close> of \<^verbatim>\<open>appleEaten$\<close> pushes into \<^verbatim>\<open>length$\<close>, and every run of it counts
  one detected consumption.
\<close>

lemma tick_cases:
  "tick c n r s = s \<or>
   (\<exists>arr. n < length (ticks_inner s) \<and>
      eatF c (next_address s) r \<lparr>address = apples_address s, cells = apples_scan s\<rparr>
        (snake_scan (snake_next c n s)) = Some arr \<and>
      tick c n r s =
        scene_snake (snake_scan (snake_next c n s)) (apples_emit c arr (snake_next c n s)))"
  by (auto simp: tick_def apples_next_def Let_def split: option.splits)

lemma length_next_effect [simp]:
  "length_subject (length_next c v s) = length_subject s @ [v]"
  "snakeLength (length_next c v s) = v + snakeLength s"
  by (simp_all add: length_next_def)

lemma appleEaten_next_length [simp]:
  "apples_count (appleEaten_next c s) = apples_count s + 1"
  "length_subject (appleEaten_next c s) =
     (if apples_count s < 1 then length_subject s else length_subject s @ [POINTS_PER_APPLE c])"
  "snakeLength (appleEaten_next c s) =
     (if apples_count s < 1 then snakeLength s else POINTS_PER_APPLE c + snakeLength s)"
  by (simp_all add: appleEaten_next_def Let_def)






subsection \<open>The score\<close>

text \<open>
  While the render loop runs, the score is the number of detected consumptions times
  \<^verbatim>\<open>POINTS_PER_APPLE\<close>. Once \<^verbatim>\<open>game$\<close> has completed, \<^verbatim>\<open>score$\<close> has no subscriber left.
\<close>

lemma appleEaten_next_score [simp]:
  "score_scan (appleEaten_next c s) =
     (if apples_count s < 1 \<or> game_done s then score_scan s
      else score_scan s + POINTS_PER_APPLE c)"
  by (simp add: appleEaten_next_def length_next_def score_next_def Let_def)

lemma score_inv_appleEaten: "score_inv c s \<Longrightarrow> score_inv c (appleEaten_next c s)"
  by (cases "apples_count s") (auto simp: score_inv_def detected_def algebra_simps)

lemma score_inv_apples_emit: "score_inv c s \<Longrightarrow> score_inv c (apples_emit c arr s)"
proof -
  assume a: "score_inv c s"
  have b: "score_inv c (s\<lparr>apples_scan := ap, apples_address := ad, next_address := na\<rparr>)"
    for ap ad na
    using a by (simp add: score_inv_def detected_def)
  have c: "score_inv c (s\<lparr>apples_scan := ap, apples_address := ad, next_address := na,
      apples_latest := al, apples_latest_address := ala\<rparr>)" for ap ad na al ala
    using a by (simp add: score_inv_def detected_def)
  have "score_inv c (scene_apples ap' (appleEaten_next c
      (s\<lparr>apples_scan := ap, apples_address := ad, next_address := na,
         apples_latest := al, apples_latest_address := ala\<rparr>)))" for ap' ap ad na al ala
    using score_inv_appleEaten [OF c] by (simp add: score_inv_def detected_def)
  with b show ?thesis by (simp add: apples_emit_def Let_def)
qed

lemma score_inv_tick: "score_inv c s \<Longrightarrow> score_inv c (tick c n r s)"
proof -
  assume a: "score_inv c s"
  then have "score_inv c (snake_next c n s)" by (simp add: score_inv_def detected_def)
  then have "score_inv c (apples_emit c arr (snake_next c n s))" for arr
    by (rule score_inv_apples_emit)
  then have "score_inv c (scene_snake sn (apples_emit c arr (snake_next c n s)))" for sn arr
    by (simp add: score_inv_def detected_def)
  with a show ?thesis using tick_cases [of c n r s] by auto
qed

lemma score_inv_step: "score_inv c s \<Longrightarrow> score_inv c (step c e s)"
  by (cases e) (simp_all add: score_inv_tick, auto simp: score_inv_def detected_def game_next_def
      split: option.splits)

lemma score_counts_detected:
  "game_done (run c evs) \<or>
   score_scan (run c evs) = int (detected (run c evs)) * POINTS_PER_APPLE c"
proof -
  have "score_inv c (run c evs)"
  proof (induction evs rule: rev_induct)
    case Nil
    show ?case by (simp add: score_inv_def detected_def initial_def)
  next
    case (snoc e evs)
    then show ?case by (simp add: score_inv_step)
  qed
  then show ?thesis by (simp add: score_inv_def)
qed

subsection \<open>Change detection\<close>

text \<open>
  Once \<^verbatim>\<open>apples$\<close> has emitted, \<^verbatim>\<open>distinctUntilChanged\<close> holds the array the \<^verbatim>\<open>scan\<close> holds.
  From then on a tick counts a detection exactly if \<^verbatim>\<open>eat\<close> returns an array at another
  address than the one it was given.
\<close>

lemma apples_emit_count:
  "apples_count (apples_emit c arr s) =
     (if apples_latest_address s = Some (address arr) then apples_count s
      else apples_count s + 1)"
  by (simp add: apples_emit_def Let_def)

lemma apples_emit_address [simp]:
  "apples_address (apples_emit c arr s) = address arr"
  "apples_latest_address (apples_emit c arr s) = Some (address arr)"
  by (simp_all add: apples_emit_def Let_def)

lemma tick_address:
  "apples_latest_address s = None \<or> apples_latest_address s = Some (apples_address s) \<Longrightarrow>
   apples_latest_address (tick c n r s) = None \<or>
   apples_latest_address (tick c n r s) = Some (apples_address (tick c n r s))"
  using tick_cases [of c n r s] by auto

lemma address_run:
  "apples_latest_address (run c evs) = None \<or>
   apples_latest_address (run c evs) = Some (apples_address (run c evs))"
proof (induction evs rule: rev_induct)
  case Nil
  show ?case by (simp add: initial_def)
next
  case (snoc e evs)
  then show ?case by (cases e) (simp_all add: tick_address)
qed

section \<open>The tick source\<close>

text \<open>
  Only the \<^verbatim>\<open>tap\<close> of \<^verbatim>\<open>appleEaten$\<close> writes \<^verbatim>\<open>SPEED\<close> and pushes it into
  \<^verbatim>\<open>speedSubject\<close>, where \<^verbatim>\<open>switchMap\<close> replaces its inner interval.
\<close>

lemma appleEaten_next_speed [simp]:
  "SPEED (appleEaten_next c s) =
     (if apples_count s < 1 then SPEED s else incrementSnakeSpeedF c (SPEED s))"
  "speedSubject (appleEaten_next c s) =
     (if apples_count s < 1 then speedSubject s
      else speedSubject s @ [incrementSnakeSpeedF c (SPEED s)])"
  "ticks_inner (appleEaten_next c s) =
     (if apples_count s < 1 then ticks_inner s
      else [\<lparr>period = incrementSnakeSpeedF c (SPEED s), counter = 0\<rparr>])"
  by (simp_all add: appleEaten_next_def speed_next_def switchMap_interval_def Let_def)

lemma apples_emit_speed:
  "SPEED (apples_emit c arr s) = SPEED s \<and> speedSubject (apples_emit c arr s) = speedSubject s \<and>
     ticks_inner (apples_emit c arr s) = ticks_inner s \<or>
   SPEED (apples_emit c arr s) = incrementSnakeSpeedF c (SPEED s) \<and>
     speedSubject (apples_emit c arr s) = speedSubject s @ [incrementSnakeSpeedF c (SPEED s)] \<and>
     ticks_inner (apples_emit c arr s) = [\<lparr>period = incrementSnakeSpeedF c (SPEED s), counter = 0\<rparr>]"
  by (simp add: apples_emit_def Let_def)

lemma snake_next_ticks:
  "ticks_inner s = [\<lparr>period = p, counter = k\<rparr>] \<Longrightarrow> n < length (ticks_inner s) \<Longrightarrow>
   ticks_inner (snake_next c n s) = [\<lparr>period = p, counter = k + 1\<rparr>]"
  by (simp add: snake_next_def Let_def)

lemma tick_speed:
  assumes "ticks_inv s"
  shows "ticks_inv (tick c n r s)"
proof -
  from assms obtain k where k: "ticks_inner s = [\<lparr>period = SPEED s, counter = k\<rparr>]"
    by (auto simp: ticks_inv_def)
  have "ticks_inv (scene_snake sn (apples_emit c arr (snake_next c n s)))"
    if n: "n < length (ticks_inner s)" for sn arr
  proof -
    have "ticks_inv (snake_next c n s)"
      using assms snake_next_ticks [OF k n, of c] by (simp add: ticks_inv_def)
    then have "ticks_inv (apples_emit c arr (snake_next c n s))"
      using apples_emit_speed [of c arr "snake_next c n s"] by (auto simp: ticks_inv_def)
    then show ?thesis by (simp add: ticks_inv_def)
  qed
  with assms show ?thesis using tick_cases [of c n r s] by auto
qed

lemma ticks_inv_step: "ticks_inv s \<Longrightarrow> ticks_inv (step c e s)"
  by (cases e) (simp_all add: tick_speed, simp_all add: ticks_inv_def)

lemma ticks_inv_run: "ticks_inv (run c evs)"
proof (induction evs rule: rev_induct)
  case Nil
  show ?case by (simp add: ticks_inv_def initial_def)
next
  case (snoc e evs)
  then show ?case by (simp add: ticks_inv_step)
qed

lemma tick_no_source: "ticks_inv s \<Longrightarrow> 0 < n \<Longrightarrow> tick c n r s = s"
  by (auto simp: ticks_inv_def tick_def)

subsection \<open>Bounds on the interval\<close>

text \<open>
  For any rule that keeps an interval between the minimum and its argument, the emitted
  intervals never increase and stay above the minimum.
\<close>

lemma speed_inv_tick:
  assumes f: "\<And>v. m \<le> v \<Longrightarrow> m \<le> incrementSnakeSpeedF c v \<and> incrementSnakeSpeedF c v \<le> v"
    and s: "speed_inv m s"
  shows "speed_inv m (tick c n r s)"
proof -
  have "speed_inv m (scene_snake sn (apples_emit c arr (snake_next c n s)))" for sn arr
  proof -
    let ?s2 = "snake_next c n s"
    have s2: "speed_inv m ?s2" using s by (simp add: speed_inv_def)
    from s have "m \<le> SPEED ?s2" by (simp add: speed_inv_def)
    from f [OF this] s2 have "speed_inv m (apples_emit c arr ?s2)"
      using apples_emit_speed [of c arr ?s2]
      by (fastforce simp: speed_inv_def sorted_wrt_append)
    then show ?thesis by (simp add: speed_inv_def)
  qed
  with s show ?thesis using tick_cases [of c n r s] by auto
qed

lemma speed_inv_run:
  assumes f: "\<And>v. m \<le> v \<Longrightarrow> m \<le> incrementSnakeSpeedF c v \<and> incrementSnakeSpeedF c v \<le> v"
    and m: "m \<le> 150"
  shows "speed_inv m (run c evs)"
proof (induction evs rule: rev_induct)
  case Nil
  show ?case using m by (simp add: speed_inv_def initial_def)
next
  case (snoc e evs)
  then show ?case
    by (cases e) (simp_all add: speed_inv_tick [OF f], simp_all add: speed_inv_def)
qed

section \<open>The render loop\<close>

text \<open>
  Only an animation frame makes calls on the canvas, and none once \<^verbatim>\<open>game$\<close> has
  completed.
\<close>


lemma render_inv_game_next: "render_inv c s \<Longrightarrow> render_inv c (game_next c s)"
proof -
  assume "render_inv c s"
  then obtain vs where vs: "rendered s = map RenderScene vs @ (if game_done s then [RenderGameOver] else [])"
    "list_all (\<lambda>v. \<not> isGameOverF c v) vs" by (auto simp: render_inv_def)
  show ?thesis
  proof (cases "game_done s")
    case True
    then show ?thesis using vs by (auto simp: render_inv_def game_next_def)
  next
    case False
    show ?thesis
    proof (cases "scene_latest s")
      case None
      then show ?thesis using vs False by (auto simp: render_inv_def game_next_def)
    next
      case (Some v)
      show ?thesis
      proof (cases "isGameOverF c v")
        case True
        then show ?thesis using vs False Some by (auto simp: render_inv_def game_next_def)
      next
        case g: False
        have "rendered (game_next c s) = map RenderScene (vs @ [v]) @ (if game_done (game_next c s) then [RenderGameOver] else [])"
          using vs False Some g by (simp add: game_next_def)
        moreover have "list_all (\<lambda>v. \<not> isGameOverF c v) (vs @ [v])" using vs g by simp
        ultimately show ?thesis unfolding render_inv_def by blast
      qed
    qed
  qed
qed

lemma render_inv_step: "render_inv c s \<Longrightarrow> render_inv c (step c e s)"
  by (cases e) (simp_all add: render_inv_game_next, simp_all add: render_inv_def)

lemma render_inv_run: "render_inv c (run c evs)"
proof (induction evs rule: rev_induct)
  case Nil
  show ?case by (simp add: render_inv_def initial_def)
next
  case (snoc e evs)
  then show ?case by (simp add: render_inv_step)
qed

lemma done_step: "game_done s \<Longrightarrow> game_done (step c e s) \<and> rendered (step c e s) = rendered s"
  by (cases e) (simp_all add: game_next_def)

lemma done_run_from: "game_done s \<Longrightarrow> game_done (run_from c s evs) \<and> rendered (run_from c s evs) = rendered s"
  by (induction evs rule: rev_induct) (simp_all add: done_step)

section \<open>The scene stream\<close>

text \<open>
  What \<^verbatim>\<open>withLatestFrom\<close> of \<^verbatim>\<open>game$\<close> holds is the last scene emitted, scenes are
  emitted with all three slots filled, and only emitted scenes are rendered.
\<close>


lemma log_combine_emit: "scene_log_inv s \<Longrightarrow> scene_log_inv (combine_emit s)"
  by (auto simp: scene_log_inv_def combine_emit_def Let_def split: option.splits)

lemma log_scene_snake: "scene_log_inv s \<Longrightarrow> scene_log_inv (scene_snake sn s)"
proof -
  assume a: "scene_log_inv s"
  then have "scene_log_inv (s\<lparr>combine_snake := Some sn\<rparr>)"
    by (auto simp: scene_log_inv_def)
  then show ?thesis using a by (simp add: scene_snake_def log_combine_emit)
qed

lemma log_scene_apples: "scene_log_inv s \<Longrightarrow> scene_log_inv (scene_apples ap s)"
proof -
  assume a: "scene_log_inv s"
  then have "scene_log_inv (s\<lparr>combine_apples := Some ap\<rparr>)"
    by (auto simp: scene_log_inv_def)
  then show ?thesis using a by (simp add: scene_apples_def log_combine_emit)
qed

lemma log_scene_score: "scene_log_inv s \<Longrightarrow> scene_log_inv (scene_score v s)"
proof -
  assume a: "scene_log_inv s"
  then have "scene_log_inv (s\<lparr>combine_score := Some v\<rparr>)"
    by (auto simp: scene_log_inv_def)
  then show ?thesis using a by (simp add: scene_score_def log_combine_emit)
qed

lemma log_update [simp]:
  "scene_log_inv (s\<lparr>score_scan := v1\<rparr>) = scene_log_inv s"
  "scene_log_inv (s\<lparr>length_subject := v2\<rparr>) = scene_log_inv s"
  "scene_log_inv (s\<lparr>snakeLength := v3\<rparr>) = scene_log_inv s"
  "scene_log_inv (s\<lparr>SPEED := v4\<rparr>) = scene_log_inv s"
  "scene_log_inv (s\<lparr>apples_count := v5\<rparr>) = scene_log_inv s"
  "scene_log_inv (s\<lparr>apples_scan := v6\<rparr>) = scene_log_inv s"
  "scene_log_inv (s\<lparr>apples_latest := v7\<rparr>) = scene_log_inv s"
  "scene_log_inv (s\<lparr>snake_scan := v8\<rparr>) = scene_log_inv s"
  "scene_log_inv (s\<lparr>ticks_inner := v9\<rparr>) = scene_log_inv s"
  "scene_log_inv (s\<lparr>apples_address := v10\<rparr>) = scene_log_inv s"
  "scene_log_inv (s\<lparr>next_address := v11\<rparr>) = scene_log_inv s"
  "scene_log_inv (s\<lparr>apples_latest_address := v12\<rparr>) = scene_log_inv s"
  "scene_log_inv (speed_next v s) = scene_log_inv s"
  by (simp_all add: scene_log_inv_def)

lemma log_score_next: "scene_log_inv s \<Longrightarrow> scene_log_inv (score_next c s)"
  by (simp add: score_next_def Let_def log_scene_score)

lemma log_length_next: "scene_log_inv s \<Longrightarrow> scene_log_inv (length_next c v s)"
  by (simp add: length_next_def log_score_next)

lemma log_appleEaten_next: "scene_log_inv s \<Longrightarrow> scene_log_inv (appleEaten_next c s)"
  by (simp add: appleEaten_next_def Let_def log_length_next)

lemma log_apples_emit: "scene_log_inv s \<Longrightarrow> scene_log_inv (apples_emit c arr s)"
  by (simp add: apples_emit_def Let_def log_scene_apples log_appleEaten_next)

lemma log_snake_next: "scene_log_inv s \<Longrightarrow> scene_log_inv (snake_next c n s)"
  by (simp add: snake_next_def Let_def)

lemma log_tick: "scene_log_inv s \<Longrightarrow> scene_log_inv (tick c n r s)"
  using tick_cases [of c n r s] by (auto simp: log_scene_snake log_apples_emit log_snake_next)

lemma log_direction_next: "scene_log_inv s \<Longrightarrow> scene_log_inv (direction_next c d s)"
  by (simp add: scene_log_inv_def)

lemma log_pause_next: "scene_log_inv s \<Longrightarrow> scene_log_inv (pause_next key s)"
  by (simp add: scene_log_inv_def)

lemma log_game_next: "scene_log_inv s \<Longrightarrow> scene_log_inv (game_next c s)"
  by (auto simp: game_next_def scene_log_inv_def split: option.splits)

lemma log_step: "scene_log_inv s \<Longrightarrow> scene_log_inv (step c e s)"
  by (cases e) (simp_all add: log_tick log_game_next log_direction_next log_pause_next)

lemma log_run: "scene_log_inv (run c evs)"
proof (induction evs rule: rev_induct)
  case Nil
  show ?case by (simp add: scene_log_inv_def initial_def)
next
  case (snoc e evs)
  then show ?case by (simp add: log_step)
qed

subsection \<open>The scene between two events\<close>

text \<open>
  During a tick the slots of \<^verbatim>\<open>combineLatest\<close> lag behind the accumulators; when the
  tick is over they agree again, and the last scene is the snapshot.
\<close>


lemma scene_score_effect [simp]:
  "\<not> game_done s \<Longrightarrow> combine_score (scene_score v s) = Some v"
  by (simp add: scene_score_def)

lemma scene_apples_effect [simp]:
  "\<not> game_done s \<Longrightarrow> combine_apples (scene_apples ap s) = Some ap"
  by (simp add: scene_apples_def)

lemma score_next_effect [simp]:
  "\<not> game_done s \<Longrightarrow> combine_score (score_next c s) = Some (score_scan (score_next c s))"
  by (simp add: score_next_def Let_def)

lemma length_next_effect2 [simp]:
  "\<not> game_done s \<Longrightarrow> combine_score (length_next c v s) = Some (score_scan (length_next c v s))"
  by (simp add: length_next_def)

lemma appleEaten_next_effect:
  "\<not> game_done s \<Longrightarrow> combine_score s = Some (score_scan s) \<Longrightarrow>
   combine_score (appleEaten_next c s) = Some (score_scan (appleEaten_next c s))"
  by (simp add: appleEaten_next_def Let_def speed_next_def)

lemma apples_emit_effect:
  assumes "\<not> game_done s" "links s"
  shows "combine_score (apples_emit c arr s) = Some (score_scan (apples_emit c arr s))"
    and "apples_latest (apples_emit c arr s) = Some (apples_scan (apples_emit c arr s))"
    and "combine_apples (apples_emit c arr s) = Some (apples_scan (apples_emit c arr s))"
  using assms by (auto simp: apples_emit_def Let_def links_def appleEaten_next_effect)

lemma scene_snake_effect:
  assumes "\<not> game_done s" "combine_apples s = Some ap" "combine_score s = Some v"
  shows "combine_snake (scene_snake sn s) = Some sn"
    and "scene_latest (scene_snake sn s) = Some \<lparr>snake = sn, apples = ap, score = v\<rparr>"
  using assms by (simp_all add: scene_snake_def combine_emit_def Let_def)

lemma scene_inv_tick:
  assumes "scene_inv s"
  shows "scene_inv (tick c n r s)"
proof (cases "game_done s")
  case True
  then show ?thesis by (simp add: scene_inv_def)
next
  case d: False
  from assms d have l: "links s" by (simp add: scene_inv_def)
  have "scene_inv (scene_snake (snake_scan (snake_next c n s)) (apples_emit c arr (snake_next c n s)))"
    for arr
  proof -
    let ?s2 = "snake_next c n s"
    let ?sn = "snake_scan ?s2"
    let ?s3 = "apples_emit c arr ?s2"
    have d2: "\<not> game_done ?s2" and l2: "links ?s2" using d l by (simp_all add: links_def)
    note e = apples_emit_effect [OF d2 l2, of c arr]
    have d3: "\<not> game_done ?s3" using d by simp
    note f = scene_snake_effect [OF d3 e(3) e(1), of ?sn]
    have "links (scene_snake ?sn ?s3)" using e by (simp add: links_def)
    moreover have "snapshot (scene_snake ?sn ?s3) =
        \<lparr>snake = ?sn, apples = apples_scan ?s3, score = score_scan ?s3\<rparr>"
      by (simp add: snapshot_def)
    ultimately show ?thesis using f e(2) by (simp add: scene_inv_def)
  qed
  with assms show ?thesis using tick_cases [of c n r s] by auto
qed

lemma scene_inv_step: "scene_inv s \<Longrightarrow> scene_inv (step c e s)"
  by (cases e) (simp_all add: scene_inv_tick, auto simp: scene_inv_def links_def snapshot_def game_next_def split: option.splits)

lemma scene_inv_run: "scene_inv (run c evs)"
proof (induction evs rule: rev_induct)
  case Nil
  show ?case by (simp add: scene_inv_def links_def initial_def)
next
  case (snoc e evs)
  then show ?case by (simp add: scene_inv_step)
qed

section \<open>Evaluation\<close>

text \<open>
  The equations that unfold a run on given events, for the evaluations below.
\<close>

lemmas eval_defs = run_def run_from_def initial_def tick_def snake_next_def apples_next_def
  apples_emit_def replacement_cell_def appleEaten_next_def
  speed_next_def switchMap_interval_def length_next_def score_next_def scene_score_def
  scene_apples_def scene_snake_def combine_emit_def direction_next_def pause_next_def
  game_next_def game_def eat_def isGameOver_def incrementSnakeSpeed_def nextDirection_def
  DIRECTIONS_def DIRECTIONS_BUTTON_def INITIAL_DIRECTION_def Let_def

lemma run_append: "run c (evs @ rest) = run_from c (run c evs) rest"
  by (simp add: run_def run_from_def)

section \<open>The rules of game.util\<close>

lemma replacement_cell_free:
  "replacement_cell draws sn remaining = Some r \<Longrightarrow>
   r \<notin> set sn \<and> r \<notin> set remaining \<and> r \<in> set draws"
  by (auto simp: replacement_cell_def find_Some_iff)

lemma replacement_cell_found:
  "d \<in> set draws \<Longrightarrow> d \<notin> set sn \<Longrightarrow> d \<notin> set remaining \<Longrightarrow>
   \<exists>r. replacement_cell draws sn remaining = Some r"
  by (cases "replacement_cell draws sn remaining") (auto simp: replacement_cell_def find_None_iff)

lemma incrementSnakeSpeed_bounds:
  "m \<le> incrementSnakeSpeed stp m cur"
  "0 < stp \<Longrightarrow> m < cur \<Longrightarrow> incrementSnakeSpeed stp m cur < cur"
  "0 \<le> stp \<Longrightarrow> m \<le> cur \<Longrightarrow> incrementSnakeSpeed stp m cur \<le> cur"
  by (simp_all add: incrementSnakeSpeed_def)

text \<open>
  C5. \<open>move\<close> with the pause flag set returns the snake as it is, for every direction
  and target length. An unpaused step without food consumption, that is with the target
  length equal to the length \<open>L\<close> of the snake, yields a snake of length \<open>L\<close> whose head
  is the old head plus the direction; its second cell is the old head, as soon as the
  snake has the two cells for a second one to exist.
\<close>

theorem move_paused_identity_and_step:
  "move sn (d, n, True) = sn \<and>
   length (move (h # t) (d, int (length (h # t)), False)) = length (h # t) \<and>
   move (h # t) (d, int (length (h # t)), False) ! 0 = \<lparr>x = x h + x d, y = y h + y d\<rparr> \<and>
   (t \<noteq> [] \<longrightarrow> move (h # t) (d, int (length (h # t)), False) ! 1 = h)"
  by (cases t) simp_all

theorem move_paused_identity_and_step_witness:
  "[\<lparr>x = 3, y = 0\<rparr>, \<lparr>x = 2, y = 0\<rparr>] \<noteq> [] \<and>
   move [\<lparr>x = 4, y = 0\<rparr>, \<lparr>x = 3, y = 0\<rparr>, \<lparr>x = 2, y = 0\<rparr>] (\<lparr>x = 0, y = 1\<rparr>, 3, False) =
     [\<lparr>x = 4, y = 1\<rparr>, \<lparr>x = 4, y = 0\<rparr>, \<lparr>x = 3, y = 0\<rparr>] \<and>
   move [\<lparr>x = 4, y = 0\<rparr>, \<lparr>x = 3, y = 0\<rparr>, \<lparr>x = 2, y = 0\<rparr>] (\<lparr>x = 0, y = 1\<rparr>, 3, False) ! 1 =
     \<lparr>x = 4, y = 0\<rparr> \<and>
   move [\<lparr>x = 4, y = 0\<rparr>, \<lparr>x = 3, y = 0\<rparr>, \<lparr>x = 2, y = 0\<rparr>] (\<lparr>x = 0, y = 1\<rparr>, 3, True) =
     [\<lparr>x = 4, y = 0\<rparr>, \<lparr>x = 3, y = 0\<rparr>, \<lparr>x = 2, y = 0\<rparr>]"
  using move_paused_identity_and_step
    [where sn = "[\<lparr>x = 4, y = 0\<rparr>, \<lparr>x = 3, y = 0\<rparr>, \<lparr>x = 2, y = 0\<rparr>]" and d = "\<lparr>x = 0, y = 1\<rparr>"
       and n = 3 and h = "\<lparr>x = 4, y = 0\<rparr>" and t = "[\<lparr>x = 3, y = 0\<rparr>, \<lparr>x = 2, y = 0\<rparr>]"]
  by (simp add: numeral_3_eq_3)

text \<open>
  C6. If the head of the snake lies on no food cell, \<open>eat\<close> returns the array it was
  given: the same address, which is what \<^verbatim>\<open>===\<close> compares, and the same cells. If the
  head lies on a food cell, whatever \<open>eat\<close> returns is a new array, at the fresh
  address, with as many cells as before: the food without the cell of the head and with
  one replacement cell, which is one of the draws and lies neither on the snake nor on
  the remaining food; and \<open>eat\<close> does return as soon as one draw is such a cell.
\<close>

theorem eat_same_or_replaced:
  "(h \<notin> set (cells food) \<longrightarrow> eat fresh draws food (h # t) = Some food) \<and>
   (h \<in> set (cells food) \<and> eat fresh draws food (h # t) = Some res \<longrightarrow>
      address res = fresh \<and> length (cells res) = length (cells food) \<and>
      (\<exists>r. cells res = remove1 h (cells food) @ [r] \<and> r \<in> set draws \<and>
           r \<notin> set (h # t) \<and> r \<notin> set (remove1 h (cells food)))) \<and>
   (h \<in> set (cells food) \<and> d \<in> set draws \<and> d \<notin> set (h # t) \<and>
    d \<notin> set (remove1 h (cells food)) \<longrightarrow>
      (\<exists>res. eat fresh draws food (h # t) = Some res))"
proof (intro conjI impI)
  show "h \<notin> set (cells food) \<Longrightarrow> eat fresh draws food (h # t) = Some food"
    by (simp add: eat_def)
next
  assume a: "h \<in> set (cells food) \<and> eat fresh draws food (h # t) = Some res"
  then obtain r where r: "replacement_cell draws (h # t) (remove1 h (cells food)) = Some r"
    and res: "res = \<lparr>address = fresh, cells = remove1 h (cells food) @ [r]\<rparr>"
    by (auto simp: eat_def split: option.splits)
  from res show "address res = fresh" by simp
  from a res show "length (cells res) = length (cells food)"
    using length_pos_if_in_set [of h "cells food"] by (simp add: length_remove1)
  from replacement_cell_free [OF r] res
  show "\<exists>r. cells res = remove1 h (cells food) @ [r] \<and> r \<in> set draws \<and>
           r \<notin> set (h # t) \<and> r \<notin> set (remove1 h (cells food))"
    by auto
next
  assume a: "h \<in> set (cells food) \<and> d \<in> set draws \<and> d \<notin> set (h # t) \<and>
    d \<notin> set (remove1 h (cells food))"
  then obtain r where "replacement_cell draws (h # t) (remove1 h (cells food)) = Some r"
    using replacement_cell_found [of d draws "h # t" "remove1 h (cells food)"] by blast
  with a show "\<exists>res. eat fresh draws food (h # t) = Some res"
    by (simp add: eat_def)
qed

theorem eat_same_or_replaced_witness:
  "\<lparr>x = 4, y = 1\<rparr> \<notin> set (cells \<lparr>address = 3, cells = [\<lparr>x = 6, y = 6\<rparr>]\<rparr>) \<and>
   eat 8 [\<lparr>x = 4, y = 0\<rparr>, \<lparr>x = 6, y = 6\<rparr>, \<lparr>x = 7, y = 7\<rparr>] \<lparr>address = 3, cells = [\<lparr>x = 6, y = 6\<rparr>]\<rparr>
     [\<lparr>x = 4, y = 1\<rparr>, \<lparr>x = 4, y = 0\<rparr>] = Some \<lparr>address = 3, cells = [\<lparr>x = 6, y = 6\<rparr>]\<rparr> \<and>
   \<lparr>x = 4, y = 1\<rparr> \<in> set (cells \<lparr>address = 3, cells = [\<lparr>x = 4, y = 1\<rparr>, \<lparr>x = 6, y = 6\<rparr>]\<rparr>) \<and>
   eat 8 [\<lparr>x = 4, y = 0\<rparr>, \<lparr>x = 6, y = 6\<rparr>, \<lparr>x = 7, y = 7\<rparr>]
     \<lparr>address = 3, cells = [\<lparr>x = 4, y = 1\<rparr>, \<lparr>x = 6, y = 6\<rparr>]\<rparr> [\<lparr>x = 4, y = 1\<rparr>, \<lparr>x = 4, y = 0\<rparr>] =
     Some \<lparr>address = 8, cells = [\<lparr>x = 6, y = 6\<rparr>, \<lparr>x = 7, y = 7\<rparr>]\<rparr> \<and>
   \<lparr>x = 7, y = 7\<rparr> \<in> set [\<lparr>x = 4, y = 0\<rparr>, \<lparr>x = 6, y = 6\<rparr>, \<lparr>x = 7, y = 7\<rparr>] \<and>
   \<lparr>x = 7, y = 7\<rparr> \<notin> set [\<lparr>x = 4, y = 1\<rparr>, \<lparr>x = 4, y = 0\<rparr>] \<and>
   \<lparr>x = 7, y = 7\<rparr> \<notin> set (remove1 \<lparr>x = 4, y = 1\<rparr> [\<lparr>x = 4, y = 1\<rparr>, \<lparr>x = 6, y = 6\<rparr>]) \<and>
   eat 8 [\<lparr>x = 4, y = 0\<rparr>, \<lparr>x = 6, y = 6\<rparr>]
     \<lparr>address = 3, cells = [\<lparr>x = 4, y = 1\<rparr>, \<lparr>x = 6, y = 6\<rparr>]\<rparr> [\<lparr>x = 4, y = 1\<rparr>, \<lparr>x = 4, y = 0\<rparr>] = None"
  using eat_same_or_replaced
    [where h = "\<lparr>x = 4, y = 1\<rparr>" and t = "[\<lparr>x = 4, y = 0\<rparr>]" and fresh = 8
       and draws = "[\<lparr>x = 4, y = 0\<rparr>, \<lparr>x = 6, y = 6\<rparr>, \<lparr>x = 7, y = 7\<rparr>]"
       and food = "\<lparr>address = 3, cells = [\<lparr>x = 6, y = 6\<rparr>]\<rparr>"]
    eat_same_or_replaced
    [where h = "\<lparr>x = 4, y = 1\<rparr>" and t = "[\<lparr>x = 4, y = 0\<rparr>]" and fresh = 8
       and draws = "[\<lparr>x = 4, y = 0\<rparr>, \<lparr>x = 6, y = 6\<rparr>, \<lparr>x = 7, y = 7\<rparr>]"
       and food = "\<lparr>address = 3, cells = [\<lparr>x = 4, y = 1\<rparr>, \<lparr>x = 6, y = 6\<rparr>]\<rparr>"
       and res = "\<lparr>address = 8, cells = [\<lparr>x = 6, y = 6\<rparr>, \<lparr>x = 7, y = 7\<rparr>]\<rparr>"
       and d = "\<lparr>x = 7, y = 7\<rparr>"]
  by (simp add: eat_def replacement_cell_def)

section \<open>Properties of the graph\<close>

text \<open>
  C1. At the failing input: a food cell lies directly below the head, and the first
  tick moves the head onto it. \<open>eat\<close> consumes it and puts the replacement, but this is
  the first value of \<^verbatim>\<open>apples$\<close>, which \<^verbatim>\<open>skip(1)\<close> drops: the score stays 0, the target
  length stays 5, and the frame that follows renders the score 0. For any rules and any
  first tick, score and target length are those of the start.
\<close>

theorem first_tick_apple_not_scored:
  "score_scan (run c [Tick 0 r]) = 0 \<and> snakeLength (run c [Tick 0 r]) = SNAKE_LENGTH c \<and>
   apples_scan (run (game [\<lparr>x = 4, y = 1\<rparr>]) [Tick 0 \<lparr>x = 7, y = 7\<rparr>, Frame]) = [\<lparr>x = 7, y = 7\<rparr>] \<and>
   score_scan (run (game [\<lparr>x = 4, y = 1\<rparr>]) [Tick 0 \<lparr>x = 7, y = 7\<rparr>, Frame]) = 0 \<and>
   snakeLength (run (game [\<lparr>x = 4, y = 1\<rparr>]) [Tick 0 \<lparr>x = 7, y = 7\<rparr>, Frame]) = 5 \<and>
   rendered (run (game [\<lparr>x = 4, y = 1\<rparr>]) [Tick 0 \<lparr>x = 7, y = 7\<rparr>, Frame]) =
     [RenderScene \<lparr>snake = [\<lparr>x = 4, y = 1\<rparr>, \<lparr>x = 4, y = 0\<rparr>, \<lparr>x = 3, y = 0\<rparr>, \<lparr>x = 2, y = 0\<rparr>,
                            \<lparr>x = 1, y = 0\<rparr>],
                   apples = [\<lparr>x = 7, y = 7\<rparr>], score = 0\<rparr>]"
proof -
  let ?s2 = "snake_next c 0 (initial c)"
  have a: "apples_count ?s2 = 0" "apples_latest_address ?s2 = None" "score_scan ?s2 = 0"
    "snakeLength ?s2 = SNAKE_LENGTH c"
    by (simp_all add: initial_def)
  have b: "score_scan (apples_emit c arr ?s2) = 0 \<and>
      snakeLength (apples_emit c arr ?s2) = SNAKE_LENGTH c" for arr
    using a by (simp add: apples_emit_def Let_def)
  have "score_scan (initial c) = 0 \<and> snakeLength (initial c) = SNAKE_LENGTH c"
    by (simp add: initial_def)
  with b have "score_scan (tick c 0 r (initial c)) = 0 \<and>
      snakeLength (tick c 0 r (initial c)) = SNAKE_LENGTH c"
    using tick_cases [of c 0 r "initial c"] by auto
  then have "score_scan (run c [Tick 0 r]) = 0 \<and> snakeLength (run c [Tick 0 r]) = SNAKE_LENGTH c"
    by (simp add: run_def run_from_def)
  then show ?thesis by (simp add: eval_defs)
qed

text \<open>
  C2. At the failing input: the first direction event is the key \<^verbatim>\<open>ArrowUp\<close>, the exact
  opposite of the initial direction. \<^verbatim>\<open>direction$\<close> emits it unchanged, whatever
  \<^verbatim>\<open>nextDirection\<close> is, and the snake will follow it; the same holds for key code 38
  in the second entry file. \<^verbatim>\<open>nextDirection\<close> applied to the initial direction would
  have rejected it.
\<close>

theorem first_key_not_validated:
  "direction_out (run c [KeyDown ''ArrowUp'']) = [\<lparr>x = 0, y = 1\<rparr>, \<lparr>x = 0, y = -1\<rparr>] \<and>
   direction_latest (run c [KeyDown ''ArrowUp'']) = \<lparr>x = 0, y = -1\<rparr> \<and>
   direction_out (direction_next c (DIRECTIONS_keyCode 38) (initial c)) =
     [\<lparr>x = 0, y = 1\<rparr>, \<lparr>x = 0, y = -1\<rparr>] \<and>
   nextDirection \<lparr>x = 0, y = 1\<rparr> \<lparr>x = 0, y = -1\<rparr> = \<lparr>x = 0, y = 1\<rparr>"
  by (simp add: eval_defs DIRECTIONS_keyCode_def)

text \<open>
  C3. The calls of the render loop are normal renderings of scenes that are not game
  over, followed by one game-over rendering exactly if the loop has completed. A frame
  that samples a scene which is game over makes the game-over call, and whatever events
  follow add no call. A frame that samples any other scene renders it and leaves the
  loop running.
\<close>

theorem render_loop_stops_at_game_over:
  "(\<exists>vs. rendered (run c evs) =
           map RenderScene vs @ (if game_done (run c evs) then [RenderGameOver] else []) \<and>
         list_all (\<lambda>v. \<not> isGameOverF c v) vs) \<and>
   (\<not> game_done (run c evs) \<and> scene_latest (run c evs) = Some v \<and> isGameOverF c v \<longrightarrow>
      rendered (run c (evs @ Frame # rest)) = rendered (run c evs) @ [RenderGameOver]) \<and>
   (\<not> game_done (run c evs) \<and> scene_latest (run c evs) = Some v \<and> \<not> isGameOverF c v \<longrightarrow>
      rendered (run c (evs @ [Frame])) = rendered (run c evs) @ [RenderScene v] \<and>
      \<not> game_done (run c (evs @ [Frame])))"
proof (intro conjI impI)
  show "\<exists>vs. rendered (run c evs) =
           map RenderScene vs @ (if game_done (run c evs) then [RenderGameOver] else []) \<and>
         list_all (\<lambda>v. \<not> isGameOverF c v) vs"
    using render_inv_run [of c evs] by (simp add: render_inv_def)
next
  assume a: "\<not> game_done (run c evs) \<and> scene_latest (run c evs) = Some v \<and> isGameOverF c v"
  let ?s = "step c Frame (run c evs)"
  have "game_done ?s" and r: "rendered ?s = rendered (run c evs) @ [RenderGameOver]"
    using a by (simp_all add: game_next_def)
  from done_run_from [OF this(1), of c rest] r
  have "rendered (run_from c ?s rest) = rendered (run c evs) @ [RenderGameOver]" by simp
  moreover have "run c (evs @ Frame # rest) = run_from c ?s rest"
    using run_append [of c "evs @ [Frame]" rest] by simp
  ultimately show "rendered (run c (evs @ Frame # rest)) = rendered (run c evs) @ [RenderGameOver]"
    by simp
next
  assume a: "\<not> game_done (run c evs) \<and> scene_latest (run c evs) = Some v \<and> \<not> isGameOverF c v"
  then show "rendered (run c (evs @ [Frame])) = rendered (run c evs) @ [RenderScene v]"
    by (simp add: game_next_def)
  from a show "\<not> game_done (run c (evs @ [Frame]))"
    by (simp add: game_next_def)
qed

theorem render_loop_stops_at_game_over_witness:
  "\<not> game_done (run (game []) [KeyDown ''ArrowLeft'', Tick 0 \<lparr>x = 7, y = 7\<rparr>]) \<and>
   scene_latest (run (game []) [KeyDown ''ArrowLeft'', Tick 0 \<lparr>x = 7, y = 7\<rparr>]) =
     Some \<lparr>snake = [\<lparr>x = 3, y = 0\<rparr>, \<lparr>x = 4, y = 0\<rparr>, \<lparr>x = 3, y = 0\<rparr>, \<lparr>x = 2, y = 0\<rparr>, \<lparr>x = 1, y = 0\<rparr>],
           apples = [], score = 0\<rparr> \<and>
   isGameOverF (game [])
     \<lparr>snake = [\<lparr>x = 3, y = 0\<rparr>, \<lparr>x = 4, y = 0\<rparr>, \<lparr>x = 3, y = 0\<rparr>, \<lparr>x = 2, y = 0\<rparr>, \<lparr>x = 1, y = 0\<rparr>],
      apples = [], score = 0\<rparr> \<and>
   rendered (run (game []) ([KeyDown ''ArrowLeft'', Tick 0 \<lparr>x = 7, y = 7\<rparr>] @
      Frame # [Tick 0 \<lparr>x = 7, y = 7\<rparr>, Frame, Frame])) = [RenderGameOver] \<and>
   \<not> game_done (run (game []) [Frame, Tick 0 \<lparr>x = 7, y = 7\<rparr>]) \<and>
   scene_latest (run (game []) [Frame, Tick 0 \<lparr>x = 7, y = 7\<rparr>]) =
     Some \<lparr>snake = [\<lparr>x = 4, y = 1\<rparr>, \<lparr>x = 4, y = 0\<rparr>, \<lparr>x = 3, y = 0\<rparr>, \<lparr>x = 2, y = 0\<rparr>, \<lparr>x = 1, y = 0\<rparr>],
           apples = [], score = 0\<rparr> \<and>
   \<not> isGameOverF (game [])
     \<lparr>snake = [\<lparr>x = 4, y = 1\<rparr>, \<lparr>x = 4, y = 0\<rparr>, \<lparr>x = 3, y = 0\<rparr>, \<lparr>x = 2, y = 0\<rparr>, \<lparr>x = 1, y = 0\<rparr>],
      apples = [], score = 0\<rparr> \<and>
   rendered (run (game []) ([Frame, Tick 0 \<lparr>x = 7, y = 7\<rparr>] @ [Frame])) =
     [RenderScene \<lparr>snake = [\<lparr>x = 4, y = 1\<rparr>, \<lparr>x = 4, y = 0\<rparr>, \<lparr>x = 3, y = 0\<rparr>, \<lparr>x = 2, y = 0\<rparr>, \<lparr>x = 1, y = 0\<rparr>],
                   apples = [], score = 0\<rparr>]"
  using render_loop_stops_at_game_over [of "game []" "[KeyDown ''ArrowLeft'', Tick 0 \<lparr>x = 7, y = 7\<rparr>]"
      "\<lparr>snake = [\<lparr>x = 3, y = 0\<rparr>, \<lparr>x = 4, y = 0\<rparr>, \<lparr>x = 3, y = 0\<rparr>, \<lparr>x = 2, y = 0\<rparr>, \<lparr>x = 1, y = 0\<rparr>],
        apples = [], score = 0\<rparr>" "[Tick 0 \<lparr>x = 7, y = 7\<rparr>, Frame, Frame]"]
    render_loop_stops_at_game_over [of "game []" "[Frame, Tick 0 \<lparr>x = 7, y = 7\<rparr>]"
      "\<lparr>snake = [\<lparr>x = 4, y = 1\<rparr>, \<lparr>x = 4, y = 0\<rparr>, \<lparr>x = 3, y = 0\<rparr>, \<lparr>x = 2, y = 0\<rparr>, \<lparr>x = 1, y = 0\<rparr>],
        apples = [], score = 0\<rparr>" "[]"]
  by (simp add: eval_defs)

text \<open>
  C4. \<^verbatim>\<open>switchMap\<close> holds exactly one inner interval at any time of a run, and its period
  is the current \<^verbatim>\<open>SPEED\<close>, the last value of \<^verbatim>\<open>speedSubject\<close>. Every emission of
  \<^verbatim>\<open>speedSubject\<close> leaves the new interval alone, counting from 0, whatever inner
  subscriptions were held before. No second tick source ever fires.
\<close>

theorem ticks_switch_to_latest:
  "(\<exists>k. ticks_inner (run c evs) = [\<lparr>period = SPEED (run c evs), counter = k\<rparr>]) \<and>
   last (speedSubject (run c evs)) = SPEED (run c evs) \<and>
   ticks_inner (speed_next v s) = [\<lparr>period = v, counter = 0\<rparr>] \<and>
   (0 < n \<longrightarrow> step c (Tick n r) (run c evs) = run c evs)"
  using ticks_inv_run [of c evs] tick_no_source [of "run c evs" n c r]
  by (simp add: ticks_inv_def speed_next_def switchMap_interval_def)

theorem ticks_switch_to_latest_witness:
  "ticks_inner (run (game [\<lparr>x = 4, y = 2\<rparr>]) [Tick 0 \<lparr>x = 7, y = 7\<rparr>, Tick 0 \<lparr>x = 9, y = 9\<rparr>]) =
     [\<lparr>period = 140, counter = 0\<rparr>] \<and>
   (0::nat) < 1 \<and>
   step (game [\<lparr>x = 4, y = 2\<rparr>]) (Tick 1 \<lparr>x = 3, y = 3\<rparr>)
     (run (game [\<lparr>x = 4, y = 2\<rparr>]) [Tick 0 \<lparr>x = 7, y = 7\<rparr>, Tick 0 \<lparr>x = 9, y = 9\<rparr>]) =
   run (game [\<lparr>x = 4, y = 2\<rparr>]) [Tick 0 \<lparr>x = 7, y = 7\<rparr>, Tick 0 \<lparr>x = 9, y = 9\<rparr>]"
  using ticks_switch_to_latest [of "game [\<lparr>x = 4, y = 2\<rparr>]"
      "[Tick 0 \<lparr>x = 7, y = 7\<rparr>, Tick 0 \<lparr>x = 9, y = 9\<rparr>]" 140 "initial (game [])" 1 "\<lparr>x = 3, y = 3\<rparr>"]
  by (simp add: eval_defs)

text \<open>
  C7, as amended. A slot of \<^verbatim>\<open>combineLatest\<close> that is empty keeps \<^verbatim>\<open>scene$\<close> silent, and
  an emission is the composite of the three slots. Once \<^verbatim>\<open>scene$\<close> has emitted, all three
  slots are filled. Between two events, while the render loop runs, the last scene
  emitted is the composite of the latest snake, food and score.
\<close>

theorem scene_composite_between_events:
  "(combine_snake s = None \<or> combine_apples s = None \<or> combine_score s = None \<longrightarrow>
      combine_emit s = s) \<and>
   (combine_snake s = Some sn \<and> combine_apples s = Some ap \<and> combine_score s = Some sc \<longrightarrow>
      scene_out (combine_emit s) = scene_out s @ [\<lparr>snake = sn, apples = ap, score = sc\<rparr>]) \<and>
   (scene_out (run c evs) \<noteq> [] \<longrightarrow>
      combine_snake (run c evs) \<noteq> None \<and> combine_apples (run c evs) \<noteq> None \<and>
      combine_score (run c evs) \<noteq> None) \<and>
   (\<not> game_done (run c evs) \<and> scene_out (run c evs) \<noteq> [] \<longrightarrow>
      last (scene_out (run c evs)) = snapshot (run c evs) \<and>
      scene_latest (run c evs) = Some (snapshot (run c evs)) \<and>
      apples_latest (run c evs) = Some (apples_scan (run c evs)))"
proof (intro conjI impI)
  show "combine_snake s = None \<or> combine_apples s = None \<or> combine_score s = None \<Longrightarrow>
      combine_emit s = s"
    by (auto simp: combine_emit_def split: option.splits)
  show "combine_snake s = Some sn \<and> combine_apples s = Some ap \<and> combine_score s = Some sc \<Longrightarrow>
      scene_out (combine_emit s) = scene_out s @ [\<lparr>snake = sn, apples = ap, score = sc\<rparr>]"
    by (simp add: combine_emit_def Let_def)
next
  assume "scene_out (run c evs) \<noteq> []"
  then show "combine_snake (run c evs) \<noteq> None" "combine_apples (run c evs) \<noteq> None"
    "combine_score (run c evs) \<noteq> None"
    using log_run [of c evs] by (auto simp: scene_log_inv_def)
next
  assume a: "\<not> game_done (run c evs) \<and> scene_out (run c evs) \<noteq> []"
  then have l: "scene_latest (run c evs) = Some (last (scene_out (run c evs)))"
    using log_run [of c evs] by (auto simp: scene_log_inv_def)
  with a scene_inv_run [of c evs]
  show s: "scene_latest (run c evs) = Some (snapshot (run c evs))"
    by (auto simp: scene_inv_def)
  with l show "last (scene_out (run c evs)) = snapshot (run c evs)" by simp
  from a l scene_inv_run [of c evs]
  show "apples_latest (run c evs) = Some (apples_scan (run c evs))"
    by (auto simp: scene_inv_def links_def)
qed

theorem scene_composite_between_events_witness:
  "combine_snake (initial (game [\<lparr>x = 4, y = 2\<rparr>])) = None \<and> combine_emit (initial (game [\<lparr>x = 4, y = 2\<rparr>])) = initial (game [\<lparr>x = 4, y = 2\<rparr>]) \<and>
   combine_snake (run (game [\<lparr>x = 4, y = 2\<rparr>]) [Tick 0 \<lparr>x = 7, y = 7\<rparr>, Tick 0 \<lparr>x = 9, y = 9\<rparr>]) = Some [\<lparr>x = 4, y = 2\<rparr>, \<lparr>x = 4, y = 1\<rparr>, \<lparr>x = 4, y = 0\<rparr>, \<lparr>x = 3, y = 0\<rparr>, \<lparr>x = 2, y = 0\<rparr>] \<and>
   combine_apples (run (game [\<lparr>x = 4, y = 2\<rparr>]) [Tick 0 \<lparr>x = 7, y = 7\<rparr>, Tick 0 \<lparr>x = 9, y = 9\<rparr>]) = Some [\<lparr>x = 9, y = 9\<rparr>] \<and>
   combine_score (run (game [\<lparr>x = 4, y = 2\<rparr>]) [Tick 0 \<lparr>x = 7, y = 7\<rparr>, Tick 0 \<lparr>x = 9, y = 9\<rparr>]) = Some 2 \<and>
   scene_out (run (game [\<lparr>x = 4, y = 2\<rparr>]) [Tick 0 \<lparr>x = 7, y = 7\<rparr>, Tick 0 \<lparr>x = 9, y = 9\<rparr>]) \<noteq> [] \<and> \<not> game_done (run (game [\<lparr>x = 4, y = 2\<rparr>]) [Tick 0 \<lparr>x = 7, y = 7\<rparr>, Tick 0 \<lparr>x = 9, y = 9\<rparr>]) \<and>
   last (scene_out (run (game [\<lparr>x = 4, y = 2\<rparr>]) [Tick 0 \<lparr>x = 7, y = 7\<rparr>, Tick 0 \<lparr>x = 9, y = 9\<rparr>])) = \<lparr>snake = [\<lparr>x = 4, y = 2\<rparr>, \<lparr>x = 4, y = 1\<rparr>, \<lparr>x = 4, y = 0\<rparr>, \<lparr>x = 3, y = 0\<rparr>, \<lparr>x = 2, y = 0\<rparr>], apples = [\<lparr>x = 9, y = 9\<rparr>], score = 2\<rparr> \<and>
   snapshot (run (game [\<lparr>x = 4, y = 2\<rparr>]) [Tick 0 \<lparr>x = 7, y = 7\<rparr>, Tick 0 \<lparr>x = 9, y = 9\<rparr>]) = \<lparr>snake = [\<lparr>x = 4, y = 2\<rparr>, \<lparr>x = 4, y = 1\<rparr>, \<lparr>x = 4, y = 0\<rparr>, \<lparr>x = 3, y = 0\<rparr>, \<lparr>x = 2, y = 0\<rparr>], apples = [\<lparr>x = 9, y = 9\<rparr>], score = 2\<rparr> \<and>
   last (scene_out (combine_emit (run (game [\<lparr>x = 4, y = 2\<rparr>]) [Tick 0 \<lparr>x = 7, y = 7\<rparr>, Tick 0 \<lparr>x = 9, y = 9\<rparr>]))) =
     \<lparr>snake = [\<lparr>x = 4, y = 2\<rparr>, \<lparr>x = 4, y = 1\<rparr>, \<lparr>x = 4, y = 0\<rparr>, \<lparr>x = 3, y = 0\<rparr>, \<lparr>x = 2, y = 0\<rparr>], apples = [\<lparr>x = 9, y = 9\<rparr>], score = 2\<rparr>"
  using scene_composite_between_events [of "initial (game [\<lparr>x = 4, y = 2\<rparr>])" "[\<lparr>x = 4, y = 2\<rparr>, \<lparr>x = 4, y = 1\<rparr>, \<lparr>x = 4, y = 0\<rparr>, \<lparr>x = 3, y = 0\<rparr>, \<lparr>x = 2, y = 0\<rparr>]" "[\<lparr>x = 9, y = 9\<rparr>]" 2 "game [\<lparr>x = 4, y = 2\<rparr>]" "[Tick 0 \<lparr>x = 7, y = 7\<rparr>, Tick 0 \<lparr>x = 9, y = 9\<rparr>]"]
    scene_composite_between_events [of "run (game [\<lparr>x = 4, y = 2\<rparr>]) [Tick 0 \<lparr>x = 7, y = 7\<rparr>, Tick 0 \<lparr>x = 9, y = 9\<rparr>]" "[\<lparr>x = 4, y = 2\<rparr>, \<lparr>x = 4, y = 1\<rparr>, \<lparr>x = 4, y = 0\<rparr>, \<lparr>x = 3, y = 0\<rparr>, \<lparr>x = 2, y = 0\<rparr>]" "[\<lparr>x = 9, y = 9\<rparr>]" 2 "game [\<lparr>x = 4, y = 2\<rparr>]" "[Tick 0 \<lparr>x = 7, y = 7\<rparr>, Tick 0 \<lparr>x = 9, y = 9\<rparr>]"]
  by (simp add: eval_defs snapshot_def)

text \<open>
  C7, as stated, fails. In this run the second tick consumes the food at \<open>(4, 2)\<close>.
  The second scene that \<^verbatim>\<open>scene$\<close> emits carries the score 2 and the snake and the food
  of the state before that tick: it is none of the simulation states of the run.
\<close>

theorem scene_mixes_ticks:
  "scene_out (run (game [\<lparr>x = 4, y = 2\<rparr>]) [Tick 0 \<lparr>x = 7, y = 7\<rparr>, Tick 0 \<lparr>x = 9, y = 9\<rparr>]) ! 1 =
     \<lparr>snake = [\<lparr>x = 4, y = 1\<rparr>, \<lparr>x = 4, y = 0\<rparr>, \<lparr>x = 3, y = 0\<rparr>, \<lparr>x = 2, y = 0\<rparr>, \<lparr>x = 1, y = 0\<rparr>],
      apples = [\<lparr>x = 4, y = 2\<rparr>], score = 2\<rparr> \<and>
   snapshots (game [\<lparr>x = 4, y = 2\<rparr>]) [Tick 0 \<lparr>x = 7, y = 7\<rparr>, Tick 0 \<lparr>x = 9, y = 9\<rparr>] =
     [\<lparr>snake = [\<lparr>x = 4, y = 0\<rparr>, \<lparr>x = 3, y = 0\<rparr>, \<lparr>x = 2, y = 0\<rparr>, \<lparr>x = 1, y = 0\<rparr>, \<lparr>x = 0, y = 0\<rparr>],
       apples = [\<lparr>x = 4, y = 2\<rparr>], score = 0\<rparr>,
      \<lparr>snake = [\<lparr>x = 4, y = 1\<rparr>, \<lparr>x = 4, y = 0\<rparr>, \<lparr>x = 3, y = 0\<rparr>, \<lparr>x = 2, y = 0\<rparr>, \<lparr>x = 1, y = 0\<rparr>],
       apples = [\<lparr>x = 4, y = 2\<rparr>], score = 0\<rparr>,
      \<lparr>snake = [\<lparr>x = 4, y = 2\<rparr>, \<lparr>x = 4, y = 1\<rparr>, \<lparr>x = 4, y = 0\<rparr>, \<lparr>x = 3, y = 0\<rparr>, \<lparr>x = 2, y = 0\<rparr>],
       apples = [\<lparr>x = 9, y = 9\<rparr>], score = 2\<rparr>] \<and>
   scene_out (run (game [\<lparr>x = 4, y = 2\<rparr>]) [Tick 0 \<lparr>x = 7, y = 7\<rparr>, Tick 0 \<lparr>x = 9, y = 9\<rparr>]) ! 1
     \<notin> set (snapshots (game [\<lparr>x = 4, y = 2\<rparr>]) [Tick 0 \<lparr>x = 7, y = 7\<rparr>, Tick 0 \<lparr>x = 9, y = 9\<rparr>])"
  by (simp add: eval_defs snapshots_def snapshot_def upt_rec)

text \<open>
  C8. With the rule \<open>incrementSnakeSpeed\<close>, a positive step and a minimum interval not
  above the initial 150, the intervals that \<^verbatim>\<open>speedSubject\<close> emits during a run never
  increase and never fall below the minimum. The rule never returns less than the
  minimum, and above the minimum it returns strictly less than it was given.
\<close>

theorem speed_never_below_minimum:
  assumes "incrementSnakeSpeedF c = incrementSnakeSpeed stp m" and "0 < stp" and "m \<le> 150"
  shows "sorted_wrt (\<lambda>a b. b \<le> a) (speedSubject (run c evs)) \<and>
         (\<forall>v\<in>set (speedSubject (run c evs)). m \<le> v) \<and>
         m \<le> incrementSnakeSpeed stp m cur \<and>
         (m < cur \<longrightarrow> incrementSnakeSpeed stp m cur < cur)"
proof -
  have "speed_inv m (run c evs)"
    using assms by (intro speed_inv_run) (simp_all add: incrementSnakeSpeed_bounds)
  then show ?thesis
    using assms(2) by (auto simp: speed_inv_def incrementSnakeSpeed_bounds)
qed

theorem speed_never_below_minimum_witness:
  "incrementSnakeSpeedF (game [\<lparr>x = 4, y = 2\<rparr>]) = incrementSnakeSpeed 10 50 \<and> (0::int) < 10 \<and>
   (50::int) \<le> 150 \<and> (50::int) < 150 \<and>
   speedSubject (run (game [\<lparr>x = 4, y = 2\<rparr>]) [Tick 0 \<lparr>x = 7, y = 7\<rparr>, Tick 0 \<lparr>x = 9, y = 9\<rparr>]) = [150, 140] \<and>
   incrementSnakeSpeed 10 50 150 = 140 \<and> incrementSnakeSpeed 10 50 55 = 50 \<and>
   incrementSnakeSpeed 10 50 50 = 50"
  using speed_never_below_minimum [of "game [\<lparr>x = 4, y = 2\<rparr>]" 10 50
      "[Tick 0 \<lparr>x = 7, y = 7\<rparr>, Tick 0 \<lparr>x = 9, y = 9\<rparr>]" 150]
  by (simp add: eval_defs)


text \<open>
  C10. While \<^verbatim>\<open>scene$\<close> has emitted nothing, no call has been made on the canvas and an
  animation frame changes nothing. Every scene passed to \<^verbatim>\<open>renderScene\<close> is one that
  \<^verbatim>\<open>scene$\<close> has emitted.
\<close>

theorem no_render_before_first_scene:
  "(scene_out (run c evs) = [] \<longrightarrow>
      rendered (run c evs) = [] \<and> step c Frame (run c evs) = run c evs) \<and>
   (RenderScene v \<in> set (rendered (run c evs)) \<longrightarrow> v \<in> set (scene_out (run c evs)))"
  using log_run [of c evs] by (auto simp: scene_log_inv_def game_next_def)

theorem no_render_before_first_scene_witness:
  "scene_out (run (game []) [Frame, KeyDown ''ArrowLeft'', Frame]) = [] \<and>
   rendered (run (game []) [Frame, KeyDown ''ArrowLeft'', Frame]) = [] \<and>
   RenderScene \<lparr>snake = [\<lparr>x = 4, y = 1\<rparr>, \<lparr>x = 4, y = 0\<rparr>, \<lparr>x = 3, y = 0\<rparr>, \<lparr>x = 2, y = 0\<rparr>, \<lparr>x = 1, y = 0\<rparr>],
                apples = [], score = 0\<rparr>
     \<in> set (rendered (run (game []) [Frame, Tick 0 \<lparr>x = 7, y = 7\<rparr>, Frame])) \<and>
   \<lparr>snake = [\<lparr>x = 4, y = 1\<rparr>, \<lparr>x = 4, y = 0\<rparr>, \<lparr>x = 3, y = 0\<rparr>, \<lparr>x = 2, y = 0\<rparr>, \<lparr>x = 1, y = 0\<rparr>],
     apples = [], score = 0\<rparr>
     \<in> set (scene_out (run (game []) [Frame, Tick 0 \<lparr>x = 7, y = 7\<rparr>, Frame]))"
  using no_render_before_first_scene [of "game []" "[Frame, KeyDown ''ArrowLeft'', Frame]"]
    no_render_before_first_scene [of "game []" "[Frame, Tick 0 \<lparr>x = 7, y = 7\<rparr>, Frame]"
      "\<lparr>snake = [\<lparr>x = 4, y = 1\<rparr>, \<lparr>x = 4, y = 0\<rparr>, \<lparr>x = 3, y = 0\<rparr>, \<lparr>x = 2, y = 0\<rparr>, \<lparr>x = 1, y = 0\<rparr>],
        apples = [], score = 0\<rparr>"]
  by (simp add: eval_defs)

end
